theory Spec2Isabelle
  imports Complex_Main "HOL-Library.Word"
begin

section \<open>Neon Tycoon: the economy engine of \<open>core_logic.cpp\<close>\<close>

text \<open>
  Numeric model. A C++ \<open>double\<close> is an IEEE 754 binary64 value: a finite real, an
  infinity or NaN, and every arithmetic operation rounds its exact result to the nearest
  binary64 value, ties to even, once (no fused multiply-add). The sign of zero is not
  kept: nothing in this program observes it. \<open>int\<close> is a 32-bit and \<open>long long\<close> a 64-bit
  word, read as two's complement by \<open>sint\<close>; their arithmetic wraps around, as it does in
  the compiled program (C++ itself leaves signed overflow undefined). A \<open>std::string\<close> is a
  list of bytes.
\<close>

subsection \<open>Binary64\<close>

datatype double = Finite real | PInf | NInf | NaN

text \<open>Rounding a real to the nearest integer, ties to the even one.\<close>

definition rne :: "real \<Rightarrow> int" where
  "rne q =
    (let f = \<lfloor>q\<rfloor>; r = q - of_int f
     in if r < 1 / 2 then f
        else if 1 / 2 < r then f + 1
        else if even f then f else f + 1)"

text \<open>
  Rounding a real to binary64. The exponent \<open>e\<close> is that of \<open>x\<close>, not below the smallest
  normal exponent; the unit in the last place is \<open>2 ^ (e - 52)\<close>; a rounded magnitude of
  \<open>2 ^ 1024\<close> or more is an infinity.
\<close>

definition rnd :: "real \<Rightarrow> double" where
  "rnd x =
    (if x = 0 then Finite 0
     else
       (let e = max \<lfloor>log 2 \<bar>x\<bar>\<rfloor> (- 1022);
            u = 2 powi (e - 52);
            y = of_int (rne (x / u)) * u
        in if 2 powi 1024 \<le> \<bar>y\<bar> then (if 0 < x then PInf else NInf) else Finite y))"

text \<open>The reals that are binary64 values: 53 bits of significand, exponents in range.\<close>

definition is_double :: "real \<Rightarrow> bool" where
  "is_double x \<longleftrightarrow>
     (\<exists>m e. x = of_int m * 2 powi e \<and> \<bar>m\<bar> < 2 ^ 53 \<and> - 1074 \<le> e \<and> e \<le> 971)"

text \<open>The sign of a value: 1, -1, or 0 for a zero and for NaN.\<close>

fun dsign :: "double \<Rightarrow> int" where
  "dsign (Finite a) = (if a = 0 then 0 else if 0 < a then 1 else - 1)"
| "dsign PInf = 1"
| "dsign NInf = - 1"
| "dsign NaN = 0"

fun dneg :: "double \<Rightarrow> double" where
  "dneg (Finite a) = Finite (- a)"
| "dneg PInf = NInf"
| "dneg NInf = PInf"
| "dneg NaN = NaN"

text \<open>\<open>x + y\<close>: NaN stays, opposite infinities give NaN, an infinity absorbs.\<close>

fun dadd :: "double \<Rightarrow> double \<Rightarrow> double" where
  "dadd (Finite a) (Finite b) = rnd (a + b)"
| "dadd NaN y = NaN"
| "dadd x NaN = NaN"
| "dadd PInf NInf = NaN"
| "dadd NInf PInf = NaN"
| "dadd PInf y = PInf"
| "dadd x PInf = PInf"
| "dadd NInf y = NInf"
| "dadd x NInf = NInf"

text \<open>\<open>x - y\<close> is \<open>x + (-y)\<close>.\<close>

definition dsub :: "double \<Rightarrow> double \<Rightarrow> double" where
  "dsub x y = dadd x (dneg y)"

text \<open>\<open>x * y\<close>: an infinity times zero is NaN, otherwise the signs multiply.\<close>

fun dmul :: "double \<Rightarrow> double \<Rightarrow> double" where
  "dmul (Finite a) (Finite b) = rnd (a * b)"
| "dmul NaN y = NaN"
| "dmul x NaN = NaN"
| "dmul x y =
    (if dsign x = 0 \<or> dsign y = 0 then NaN
     else if dsign x = dsign y then PInf else NInf)"

text \<open>\<open>x / y\<close>; the program only divides by the constant 1000000.\<close>

fun ddiv :: "double \<Rightarrow> double \<Rightarrow> double" where
  "ddiv NaN y = NaN"
| "ddiv x NaN = NaN"
| "ddiv (Finite a) (Finite b) =
    (if b = 0 then (if a = 0 then NaN else if 0 < a then PInf else NInf)
     else rnd (a / b))"
| "ddiv (Finite a) y = Finite 0"
| "ddiv x (Finite b) = (if b < 0 then dneg x else x)"
| "ddiv x y = NaN"

text \<open>\<open>std::sqrt\<close>, correctly rounded as IEEE 754 requires.\<close>

fun dsqrt :: "double \<Rightarrow> double" where
  "dsqrt (Finite a) = (if a < 0 then NaN else rnd (sqrt a))"
| "dsqrt PInf = PInf"
| "dsqrt x = NaN"

text \<open>\<open>std::floor\<close>: exact on a finite value, the identity on the others.\<close>

fun dfloor :: "double \<Rightarrow> double" where
  "dfloor (Finite a) = Finite (of_int \<lfloor>a\<rfloor>)"
| "dfloor x = x"

text \<open>\<open>x < y\<close> and \<open>x <= y\<close>: false as soon as one side is NaN.\<close>

fun dlt :: "double \<Rightarrow> double \<Rightarrow> bool" where
  "dlt (Finite a) (Finite b) = (a < b)"
| "dlt NaN y = False"
| "dlt x NaN = False"
| "dlt x NInf = False"
| "dlt NInf y = True"
| "dlt PInf y = False"
| "dlt x PInf = True"

fun dle :: "double \<Rightarrow> double \<Rightarrow> bool" where
  "dle (Finite a) (Finite b) = (a \<le> b)"
| "dle NaN y = False"
| "dle x NaN = False"
| "dle NInf y = True"
| "dle x PInf = True"
| "dle x y = False"

text \<open>An \<open>int\<close> converted to \<open>double\<close>: every 32-bit integer is a binary64 value.\<close>

definition double_of_int :: "32 word \<Rightarrow> double" where
  "double_of_int i = Finite (of_int (sint i))"

text \<open>
  A \<open>double\<close> converted to \<open>long long\<close>: the value truncated towards zero when that fits
  in 64 bits; otherwise (and for an infinity or NaN) C++ leaves the conversion undefined,
  which is \<open>None\<close>.
\<close>

definition to_long_long :: "double \<Rightarrow> 64 word option" where
  "to_long_long x =
    (case x of
       Finite a \<Rightarrow>
         (let t = (if 0 \<le> a then \<lfloor>a\<rfloor> else \<lceil>a\<rceil>)
          in if - (2 ^ 63) \<le> t \<and> t < 2 ^ 63 then Some (word_of_int t) else None)
     | _ \<Rightarrow> None)"

text \<open>
  \<open>std::pow\<close> is the C library's and IEEE 754 does not fix its rounding, so the engine
  takes it as the parameter \<open>pw\<close> (base, then the integer exponent). \<open>pow_rn\<close> is the
  correctly rounded power, one such function, for the examples.
\<close>

fun pow_rn :: "double \<Rightarrow> int \<Rightarrow> double" where
  "pow_rn (Finite a) n = (if a = 0 \<and> n < 0 then PInf else rnd (a powi n))"
| "pow_rn PInf n = (if n = 0 then Finite 1 else if 0 < n then PInf else Finite 0)"
| "pow_rn NInf n =
    (if n = 0 then Finite 1
     else if n < 0 then Finite 0
     else if even n then PInf else NInf)"
| "pow_rn NaN n = (if n = 0 then Finite 1 else NaN)"

subsection \<open>Configuration constants\<close>

text \<open>A decimal literal is the binary64 value nearest to it.\<close>

definition PRICE_GROWTH_RATE :: double where
  "PRICE_GROWTH_RATE = rnd 1.15"

definition DISCOUNT_RATE :: double where
  "DISCOUNT_RATE = rnd 0.9"

definition AUTO_CLICK_BONUS :: double where
  "AUTO_CLICK_BONUS = rnd 0.05"

subsection \<open>The catalog\<close>

text \<open>
  \<open>struct BuildingDef\<close> and \<open>struct SkillDef\<close>. The field names carry a prefix where the
  two structs share a name (\<open>id\<close>, \<open>name\<close>).
\<close>

record BuildingDef =
  bId :: "32 word"
  bName :: string
  baseCost :: double
  income :: double
  icon :: string

record SkillDef =
  sId :: string
  sName :: string
  cost :: "32 word"
  description :: string

text \<open>\<open>GameData::getBuildings\<close>; the icons are the UTF-8 bytes of the source's literals.\<close>

definition getBuildings :: "BuildingDef list" where
  "getBuildings =
    [\<lparr>bId = 0, bName = ''Data Miner'', baseCost = Finite 15, income = Finite 1,
       icon = [CHR 0xF0, CHR 0x9F, CHR 0x92, CHR 0xBE]\<rparr>,
     \<lparr>bId = 1, bName = ''Bot Network'', baseCost = Finite 100, income = Finite 5,
       icon = [CHR 0xF0, CHR 0x9F, CHR 0xA4, CHR 0x96]\<rparr>,
     \<lparr>bId = 2, bName = ''Server Rack'', baseCost = Finite 1100, income = Finite 22,
       icon = [CHR 0xF0, CHR 0x9F, CHR 0x94, CHR 0x8B]\<rparr>,
     \<lparr>bId = 3, bName = ''AI Cluster'', baseCost = Finite 12000, income = Finite 85,
       icon = [CHR 0xF0, CHR 0x9F, CHR 0xA7, CHR 0xA0]\<rparr>,
     \<lparr>bId = 4, bName = ''Quantum Core'', baseCost = Finite 130000, income = Finite 350,
       icon = [CHR 0xE2, CHR 0x9A, CHR 0x9B, CHR 0xEF, CHR 0xB8, CHR 0x8F]\<rparr>,
     \<lparr>bId = 5, bName = ''Dyson Swarm'', baseCost = Finite 1500000, income = Finite 1500,
       icon = [CHR 0xE2, CHR 0x98, CHR 0x80, CHR 0xEF, CHR 0xB8, CHR 0x8F]\<rparr>,
     \<lparr>bId = 6, bName = ''Reality Engine'', baseCost = Finite 25000000, income = Finite 8000,
       icon = [CHR 0xF0, CHR 0x9F, CHR 0x8C, CHR 0x80]\<rparr>]"

text \<open>\<open>GameData::getSkills\<close>.\<close>

definition getSkills :: "SkillDef list" where
  "getSkills =
    [\<lparr>sId = ''auto_click'', sName = ''Auto-Clicker'', cost = 5,
       description = ''Automatic clicks 1x/sec''\<rparr>,
     \<lparr>sId = ''cheaper'', sName = ''Optimization'', cost = 10,
       description = ''Buildings are 10% cheaper''\<rparr>,
     \<lparr>sId = ''offline'', sName = ''Deep Sleep'', cost = 15,
       description = ''Offline earnings x2''\<rparr>,
     \<lparr>sId = ''hack_freq'', sName = ''Backdoor'', cost = 25,
       description = ''Hacks appear more frequently''\<rparr>]"

subsection \<open>The engine's state\<close>

text \<open>The private members of \<open>class GameEngine\<close>, in the order of the source.\<close>

record GameEngine =
  money :: double
  neuralData :: "64 word"
  buildingCounts :: "32 word list"
  ownedSkills :: "string \<rightharpoonup> bool"
  startTime :: "64 word"
  lastSaveTime :: "64 word"
  totalClicks :: "64 word"
  totalEarnings :: double
  incomeMultiplier :: double
  globalIncomePerSec :: double

text \<open>
  The constructor. Its initialiser list sets \<open>money\<close>, \<open>neuralData\<close>, \<open>startTime\<close> (the
  clock, here \<open>now\<close>), \<open>totalClicks\<close>, \<open>totalEarnings\<close> and \<open>incomeMultiplier\<close>; its body
  resizes \<open>buildingCounts\<close>; \<open>ownedSkills\<close> is default-constructed. \<open>lastSaveTime\<close> and
  \<open>globalIncomePerSec\<close> are not initialised: they hold whatever the object's memory
  held, the parameters \<open>junkSave\<close> and \<open>junkRate\<close>.
\<close>

definition GameEngine_init :: "64 word \<Rightarrow> 64 word \<Rightarrow> double \<Rightarrow> GameEngine" where
  "GameEngine_init now junkSave junkRate =
    \<lparr>money = Finite 0, neuralData = 0,
     buildingCounts = replicate (length getBuildings) 0,
     ownedSkills = Map.empty,
     startTime = now, lastSaveTime = junkSave,
     totalClicks = 0, totalEarnings = Finite 0,
     incomeMultiplier = Finite 1, globalIncomePerSec = junkRate\<rparr>"

subsection \<open>Helpers\<close>

text \<open>\<open>hasSkill\<close>: \<open>find\<close>, then the stored flag.\<close>

definition hasSkill :: "GameEngine \<Rightarrow> string \<Rightarrow> bool" where
  "hasSkill s skillId =
    (case ownedSkills s skillId of None \<Rightarrow> False | Some owned \<Rightarrow> owned)"

text \<open>
  \<open>getBuildingCost\<close>. Both subscripts are unchecked in the source; an index outside
  the catalog or outside \<open>buildingCounts\<close> has no defined result, which is \<open>None\<close> here.
  The product is taken left to right, each step rounded.
\<close>

definition getBuildingCost ::
    "(double \<Rightarrow> int \<Rightarrow> double) \<Rightarrow> GameEngine \<Rightarrow> 32 word \<Rightarrow> double option" where
  "getBuildingCost pw s buildingId =
    (if 0 \<le> sint buildingId \<and> nat (sint buildingId) < length getBuildings
        \<and> nat (sint buildingId) < length (buildingCounts s)
     then
       (let b = getBuildings ! nat (sint buildingId);
            growth = pw PRICE_GROWTH_RATE (sint (buildingCounts s ! nat (sint buildingId)));
            discount = (if hasSkill s ''cheaper'' then DISCOUNT_RATE else Finite 1)
        in Some (dfloor (dmul (dmul (baseCost b) growth) discount)))
     else None)"

subsection \<open>Core economy logic\<close>

text \<open>The loop of \<open>calculateIncomePerSec\<close>, from index \<open>i\<close> with the running sum.\<close>

function incomeLoop :: "BuildingDef list \<Rightarrow> 32 word list \<Rightarrow> nat \<Rightarrow> double \<Rightarrow> double" where
  "incomeLoop db counts i baseIncome =
    (if i < length db
     then incomeLoop db counts (Suc i)
            (if i < length counts
             then dadd baseIncome (dmul (income (db ! i)) (double_of_int (counts ! i)))
             else baseIncome)
     else baseIncome)"
  by pat_completeness auto
termination
  by (relation "measure (\<lambda>(db, counts, i, baseIncome). length db - i)") auto

declare incomeLoop.simps [simp del]

definition calculateIncomePerSec :: "GameEngine \<Rightarrow> GameEngine" where
  "calculateIncomePerSec s =
    (let baseIncome = incomeLoop getBuildings (buildingCounts s) 0 (Finite 0);
         baseIncome = (if hasSkill s ''auto_click''
                       then dadd baseIncome (dmul baseIncome AUTO_CLICK_BONUS)
                       else baseIncome)
     in s\<lparr>globalIncomePerSec := dmul baseIncome (incomeMultiplier s)\<rparr>)"

definition addMoney :: "GameEngine \<Rightarrow> double \<Rightarrow> GameEngine" where
  "addMoney s amount =
    s\<lparr>money := dadd (money s) amount, totalEarnings := dadd (totalEarnings s) amount\<rparr>"

definition update :: "GameEngine \<Rightarrow> double \<Rightarrow> GameEngine" where
  "update s deltaTime =
    (let s1 = calculateIncomePerSec s
     in if dlt (Finite 0) (globalIncomePerSec s1)
        then addMoney s1 (dmul (globalIncomePerSec s1) deltaTime)
        else s1)"

subsection \<open>User actions\<close>

definition click :: "GameEngine \<Rightarrow> GameEngine" where
  "click s =
    (let s1 = s\<lparr>totalClicks := totalClicks s + 1\<rparr>;
         clickValue = dadd (Finite 1) (dmul (globalIncomePerSec s1) (rnd 0.05))
     in addMoney s1 clickValue)"

text \<open>
  \<open>buyBuilding\<close> returns the flag and the new state; \<open>None\<close> only where the subscript
  of \<open>getBuildingCost\<close> is undefined (a \<open>buildingCounts\<close> shorter than the catalog).
\<close>

definition buyBuilding ::
    "(double \<Rightarrow> int \<Rightarrow> double) \<Rightarrow> GameEngine \<Rightarrow> 32 word \<Rightarrow> (bool \<times> GameEngine) option" where
  "buyBuilding pw s buildingId =
    (if sint buildingId < 0 \<or> int (length getBuildings) \<le> sint buildingId
     then Some (False, s)
     else
       (case getBuildingCost pw s buildingId of
          None \<Rightarrow> None
        | Some c \<Rightarrow>
            if dle c (money s)
            then Some (True,
                   s\<lparr>money := dsub (money s) c,
                     buildingCounts := (buildingCounts s)
                       [nat (sint buildingId) :=
                          buildingCounts s ! nat (sint buildingId) + 1]\<rparr>)
            else Some (False, s)))"

text \<open>
  \<open>std::map::operator[]\<close>: the stored flag, and the map, which gains the key with the
  flag \<open>false\<close> when the key was absent.
\<close>

definition subscript :: "(string \<rightharpoonup> bool) \<Rightarrow> string \<Rightarrow> bool \<times> (string \<rightharpoonup> bool)" where
  "subscript m k = (case m k of None \<Rightarrow> (False, m(k \<mapsto> False)) | Some v \<Rightarrow> (v, m))"

text \<open>
  The range-for of \<open>buySkill\<close> over the skills still to visit. The \<open>int\<close> cost is
  sign-extended to \<open>long long\<close> for the comparison and the subtraction.
\<close>

fun buySkillLoop :: "SkillDef list \<Rightarrow> string \<Rightarrow> GameEngine \<Rightarrow> bool \<times> GameEngine" where
  "buySkillLoop [] skillId s = (False, s)"
| "buySkillLoop (skill # rest) skillId s =
    (if sId skill = skillId
     then (if sint (cost skill) \<le> sint (neuralData s)
           then (True, s\<lparr>neuralData := neuralData s - scast (cost skill),
                         ownedSkills := (ownedSkills s)(skillId \<mapsto> True)\<rparr>)
           else buySkillLoop rest skillId s)
     else buySkillLoop rest skillId s)"

definition buySkill :: "GameEngine \<Rightarrow> string \<Rightarrow> bool \<times> GameEngine" where
  "buySkill s skillId =
    (let (owned, m) = subscript (ownedSkills s) skillId;
         s1 = s\<lparr>ownedSkills := m\<rparr>
     in if owned then (False, s1) else buySkillLoop getSkills skillId s1)"

subsection \<open>Prestige\<close>

text \<open>
  \<open>calculatePrestigePotential\<close> is \<open>None\<close> where the conversion to \<open>long long\<close> is
  undefined, and \<open>doPrestige\<close> with it.
\<close>

definition calculatePrestigePotential :: "GameEngine \<Rightarrow> 64 word option" where
  "calculatePrestigePotential s =
    (if dlt (money s) (Finite 1000000) then Some 0
     else to_long_long (dfloor (dsqrt (ddiv (money s) (Finite 1000000)))))"

definition doPrestige :: "GameEngine \<Rightarrow> GameEngine option" where
  "doPrestige s =
    (case calculatePrestigePotential s of
       None \<Rightarrow> None
     | Some potential \<Rightarrow>
         Some (if 0 < sint potential
               then s\<lparr>neuralData := neuralData s + potential,
                      money := Finite 0,
                      buildingCounts := replicate (length (buildingCounts s)) 0,
                      incomeMultiplier := Finite 1\<rparr>
               else s))"

subsection \<open>Getters\<close>

definition getMoney :: "GameEngine \<Rightarrow> double" where
  "getMoney s = money s"

definition getIncomePerSec :: "GameEngine \<Rightarrow> double" where
  "getIncomePerSec s = globalIncomePerSec s"

definition getNeuralData :: "GameEngine \<Rightarrow> 64 word" where
  "getNeuralData s = neuralData s"

subsection \<open>Sequences of public operations\<close>

text \<open>
  The driver's calls, one constructor per public operation (\<open>Advance\<close> is \<open>update\<close>), and
  the state after a sequence of them. \<open>step\<close> is \<open>None\<close> only where \<open>buyBuilding\<close> or
  \<open>doPrestige\<close> is.
\<close>

datatype action =
  Click | BuyBuilding "32 word" | BuySkill string | DoPrestige | Advance double

fun step :: "(double \<Rightarrow> int \<Rightarrow> double) \<Rightarrow> GameEngine \<Rightarrow> action \<Rightarrow> GameEngine option" where
  "step pw s Click = Some (click s)"
| "step pw s (BuyBuilding buildingId) = map_option snd (buyBuilding pw s buildingId)"
| "step pw s (BuySkill skillId) = Some (snd (buySkill s skillId))"
| "step pw s DoPrestige = doPrestige s"
| "step pw s (Advance deltaTime) = Some (update s deltaTime)"

fun run :: "(double \<Rightarrow> int \<Rightarrow> double) \<Rightarrow> GameEngine \<Rightarrow> action list \<Rightarrow> GameEngine option" where
  "run pw s [] = Some s"
| "run pw s (a # as) = (case step pw s a of None \<Rightarrow> None | Some s' \<Rightarrow> run pw s' as)"

text \<open>
  The state invariant of the data model: one count per catalog building, and no negative
  \<open>money\<close>, \<open>neuralData\<close>, \<open>totalClicks\<close> or \<open>totalEarnings\<close>.
\<close>

definition invariant :: "GameEngine \<Rightarrow> bool" where
  "invariant s \<longleftrightarrow>
     length (buildingCounts s) = length getBuildings
     \<and> dle (Finite 0) (money s) \<and> 0 \<le> sint (neuralData s)
     \<and> 0 \<le> sint (totalClicks s) \<and> dle (Finite 0) (totalEarnings s)"


section \<open>Rounding to binary64\<close>

lemma rne_near:
  assumes "of_int n - 1 / 2 < q" and "q < of_int n + 1 / 2"
  shows "rne q = n"
proof (cases "of_int n \<le> q")
  case True
  with assms(2) have "\<lfloor>q\<rfloor> = n" by (simp add: floor_eq_iff)
  with assms(2) show ?thesis by (simp add: rne_def Let_def)
next
  case False
  with assms(1) have f: "\<lfloor>q\<rfloor> = n - 1" by (simp add: floor_eq_iff)
  with assms(1) have "1 / 2 < q - of_int \<lfloor>q\<rfloor>" by simp
  with f show ?thesis by (simp add: rne_def Let_def)
qed

lemma rne_of_int [simp]: "rne (of_int n) = n"
  by (rule rne_near) simp_all


lemma rne_mono_floor: "\<lfloor>q\<rfloor> \<le> rne q"
  by (simp add: rne_def Let_def)

lemma two_powi_pos [simp]: "0 < (2::real) powi e"
  by (simp add: power_int_def)

lemma floor_log2:
  assumes "2 powi e \<le> x" and "x < 2 powi (e + 1)"
  shows "\<lfloor>log 2 x\<rfloor> = e"
proof -
  have "(0::real) < 2 powi e" by simp
  with assms(1) have pos: "0 < x" by linarith
  have "(2::real) powr real_of_int e = 2 powi e"
    "(2::real) powr real_of_int (e + 1) = 2 powi (e + 1)"
    by (rule powr_real_of_int'; simp)+
  with assms have "2 powr real_of_int e \<le> x \<and> x < 2 powr real_of_int (e + 1)"
    by simp
  with pos show ?thesis
    by (simp add: floor_log_eq_powr_iff)
qed


lemma rnd_eval:
  assumes "2 powi e \<le> \<bar>x\<bar>" and "\<bar>x\<bar> < 2 powi (e + 1)" and "- 1022 \<le> e"
    and "rne (x / 2 powi (e - 52)) = n"
    and "\<bar>real_of_int n * 2 powi (e - 52)\<bar> < 2 powi 1024"
  shows "rnd x = Finite (of_int n * 2 powi (e - 52))"
proof -
  have "(0::real) < 2 powi e" by simp
  with assms(1) have "0 < \<bar>x\<bar>" by linarith
  then have "x \<noteq> 0" by simp
  moreover from assms(1,2) have "\<lfloor>log 2 \<bar>x\<bar>\<rfloor> = e" by (rule floor_log2)
  with assms(3) have "max \<lfloor>log 2 \<bar>x\<bar>\<rfloor> (- 1022) = e" by simp
  ultimately show ?thesis
    using assms(4,5) by (simp add: rnd_def Let_def)
qed

lemma rnd_exact:
  assumes "is_double x"
  shows "rnd x = Finite x"
proof (cases "x = 0")
  case True
  then show ?thesis by (simp add: rnd_def)
next
  case False
  from assms obtain m k where x: "x = of_int m * 2 powi k"
    and m: "\<bar>m\<bar> < 2 ^ 53" and k: "- 1074 \<le> k" "k \<le> 971"
    unfolding is_double_def by blast
  define e where "e = max \<lfloor>log 2 \<bar>x\<bar>\<rfloor> (- 1022)"
  have absx: "\<bar>x\<bar> = of_int \<bar>m\<bar> * 2 powi k"
    by (simp add: x abs_mult)
  from m have "real_of_int \<bar>m\<bar> < 2 ^ 53"
    by (metis of_int_less_iff of_int_numeral of_int_power)
  then have "\<bar>x\<bar> < 2 ^ 53 * 2 powi k"
    unfolding absx by (intro mult_strict_right_mono) simp_all
  also have "(2::real) ^ 53 * 2 powi k = 2 powi (53 + k)"
    by (simp add: power_int_add)
  finally have lt: "\<bar>x\<bar> < 2 powi (53 + k)" .
  have "(2::real) powr real_of_int (53 + k) = 2 powi (53 + k)"
    by (rule powr_real_of_int') simp_all
  with lt False have "log 2 \<bar>x\<bar> < real_of_int (53 + k)"
    by (simp add: log_less_iff)
  then have "\<lfloor>log 2 \<bar>x\<bar>\<rfloor> < 53 + k" by (simp add: floor_less_iff)
  with k have ek: "e - 52 \<le> k" by (simp add: e_def)
  have "(2::real) powi k = 2 powi (k - (e - 52)) * 2 powi (e - 52)"
    by (simp flip: power_int_add)
  also have "(2::real) powi (k - (e - 52)) = of_int (2 ^ nat (k - (e - 52)))"
    using ek by (simp add: power_int_def)
  finally have split: "(2::real) powi k
      = of_int (2 ^ nat (k - (e - 52))) * 2 powi (e - 52)" .
  have xN: "x = of_int (m * 2 ^ nat (k - (e - 52))) * 2 powi (e - 52)"
    unfolding x by (subst split) simp
  have "x / 2 powi (e - 52) = of_int (m * 2 ^ nat (k - (e - 52)))"
    by (subst xN) simp
  then have "rne (x / 2 powi (e - 52)) = m * 2 ^ nat (k - (e - 52))"
    by (simp only: rne_of_int)
  with xN have r: "of_int (rne (x / 2 powi (e - 52))) * 2 powi (e - 52) = x"
    by simp
  from lt k have "\<bar>x\<bar> < 2 powi 1024"
  proof -
    have "(2::real) powi (53 + k) \<le> 2 powi 1024"
      using k by (intro power_int_increasing) simp_all
    with lt show ?thesis by linarith
  qed
  with False r show ?thesis
    by (simp add: rnd_def Let_def e_def [symmetric])
qed

lemma is_double_of_int:
  assumes "\<bar>n\<bar> < 2 ^ 53"
  shows "is_double (of_int n)"
  unfolding is_double_def
  using assms by (intro exI [of _ n] exI [of _ 0]) simp

lemma rnd_of_int: "\<bar>n\<bar> < 2 ^ 53 \<Longrightarrow> rnd (of_int n) = Finite (of_int n)"
  by (rule rnd_exact) (rule is_double_of_int)




lemma rnd_nonneg:
  assumes "0 \<le> x"
  shows "rnd x = PInf \<or> (\<exists>y. rnd x = Finite y \<and> 0 \<le> y)"
proof (cases "x = 0")
  case True
  then show ?thesis by (simp add: rnd_def)
next
  case False
  with assms have pos: "0 < x" by simp
  define u :: real where "u = 2 powi (max \<lfloor>log 2 x\<rfloor> (- 1022) - 52)"
  have u: "0 < u" unfolding u_def by (rule two_powi_pos)
  with pos have "0 \<le> x / u" by simp
  then have "0 \<le> \<lfloor>x / u\<rfloor>" by simp
  also have "\<dots> \<le> rne (x / u)" by (rule rne_mono_floor)
  finally have y: "0 \<le> real_of_int (rne (x / u)) * u" using u by simp
  from pos have "rnd x =
      (if 2 powi 1024 \<le> \<bar>real_of_int (rne (x / u)) * u\<bar>
       then PInf else Finite (real_of_int (rne (x / u)) * u))"
    by (simp add: rnd_def Let_def u_def)
  with y show ?thesis
    by (cases "2 powi 1024 \<le> \<bar>real_of_int (rne (x / u)) * u\<bar>") simp_all
qed



lemma rnd_0 [simp]: "rnd 0 = Finite 0"
  by (simp add: rnd_def)

lemma rnd_1 [simp]: "rnd 1 = Finite 1"
  using rnd_of_int [of 1] by simp

lemma rnd_numeral [simp]:
  "(numeral k :: int) < 2 ^ 53 \<Longrightarrow> rnd (numeral k) = Finite (numeral k)"
  using rnd_of_int [of "numeral k"] by simp

lemma rnd_neg_numeral [simp]:
  "(numeral k :: int) < 2 ^ 53 \<Longrightarrow> rnd (- numeral k) = Finite (- numeral k)"
  using rnd_of_int [of "- numeral k"] by simp

lemma PRICE_GROWTH_RATE_value: "PRICE_GROWTH_RATE = Finite (2589569785738035 / 2 ^ 51)"
  unfolding PRICE_GROWTH_RATE_def
  using rnd_eval [of "0" "115 / 100" "5179139571476070"]
  by (simp add: rne_def Let_def)

lemma DISCOUNT_RATE_value: "DISCOUNT_RATE = Finite (8106479329266893 / 2 ^ 53)"
  unfolding DISCOUNT_RATE_def
  using rnd_eval [of "-1" "9 / 10" "8106479329266893"]
  by (simp add: rne_def Let_def)

lemma AUTO_CLICK_BONUS_value: "AUTO_CLICK_BONUS = Finite (3602879701896397 / 2 ^ 56)"
  unfolding AUTO_CLICK_BONUS_def
  using rnd_eval [of "-5" "5 / 100" "7205759403792794"]
  by (simp add: rne_def Let_def)

lemma rnd_005: "rnd 0.05 = Finite (3602879701896397 / 2 ^ 56)"
  using rnd_eval [of "-5" "5 / 100" "7205759403792794"]
  by (simp add: rne_def Let_def)

lemma rnd_105: "rnd 1.05 = Finite (4728779608739021 / 2 ^ 52)"
  using rnd_eval [of "0" "105 / 100" "4728779608739021"]
  by (simp add: rne_def Let_def)

lemma mul_m100_B: "dmul (Finite (- 100)) (rnd 0.05) = Finite (- 5)"
  unfolding rnd_005
  using rnd_eval [of "2" "- 100 * (3602879701896397 / 2 ^ 56)" "- 5629499534213120"]
  by (simp add: rne_def Let_def)

lemma mul_20_B: "dmul (Finite 20) (rnd 0.05) = Finite (1)"
  unfolding rnd_005
  using rnd_eval [of "0" "20 * (3602879701896397 / 2 ^ 56)" "4503599627370496"]
  by (simp add: rne_def Let_def)

lemma mul_100_B: "dmul (Finite 100) AUTO_CLICK_BONUS = Finite (5)"
  unfolding AUTO_CLICK_BONUS_value
  using rnd_eval [of "2" "100 * (3602879701896397 / 2 ^ 56)" "5629499534213120"]
  by (simp add: rne_def Let_def)

lemma mul_3_B: "dmul (Finite 3) AUTO_CLICK_BONUS = Finite (1351079888211149 / 2 ^ 53)"
  unfolding AUTO_CLICK_BONUS_value
  using rnd_eval [of "-3" "3 * (3602879701896397 / 2 ^ 56)" "5404319552844596"]
  by (simp add: rne_def Let_def)

lemma add_3_3B: "dadd (Finite 3) (Finite (1351079888211149 / 2 ^ 53)) = Finite (7093169413108531 / 2 ^ 51)"
  using rnd_eval [of "1" "3 + 1351079888211149 / 2 ^ 53" "7093169413108531"]
  by (simp add: rne_def Let_def)

lemma mul_3_105: "dmul (Finite 3) (Finite (4728779608739021 / 2 ^ 52)) = Finite (1773292353277133 / 2 ^ 49)"
  using rnd_eval [of "1" "3 * (4728779608739021 / 2 ^ 52)" "7093169413108532"]
  by (simp add: rne_def Let_def)

lemma add_2p53_1: "dadd (Finite (2 ^ 53)) (Finite 1) = Finite (9007199254740992)"
  using rnd_eval [of "53" "2 ^ 53 + 1" "4503599627370496"]
  by (simp add: rne_def Let_def)


lemma sint_add_64:
  fixes a b :: "64 word"
  assumes "- (2 ^ 63) \<le> sint a + sint b" and "sint a + sint b < 2 ^ 63"
  shows "sint (a + b) = sint a + sint b"
  using assms by (simp add: sint_word_ariths signed_take_bit_int_eq_self)

lemma sint_sub_64:
  fixes a b :: "64 word"
  assumes "- (2 ^ 63) \<le> sint a - sint b" and "sint a - sint b < 2 ^ 63"
  shows "sint (a - b) = sint a - sint b"
  using assms by (simp add: sint_word_ariths signed_take_bit_int_eq_self)

lemma sint_scast_64: "sint (scast (c :: 32 word) :: 64 word) = sint c"
  by (rule sint_up_scast) (simp add: is_up)

lemma dadd_exact:
  "is_double (a + b) \<Longrightarrow> dadd (Finite a) (Finite b) = Finite (a + b)"
  by (simp add: rnd_exact)

lemma dmul_exact:
  "is_double (a * b) \<Longrightarrow> dmul (Finite a) (Finite b) = Finite (a * b)"
  by (simp add: rnd_exact)

lemma is_double_dyadic:
  assumes "\<bar>m\<bar> < 2 ^ 53" and "k \<le> 1074"
  shows "is_double (of_int m / 2 ^ k)"
proof -
  have "real_of_int m / 2 ^ k = real_of_int m * 2 powi (- int k)"
    by (simp add: power_int_minus divide_inverse)
  moreover have "- 1074 \<le> - int k" "- int k \<le> 971"
    using assms(2) by simp_all
  ultimately show ?thesis
    unfolding is_double_def using assms(1) by blast
qed

section \<open>Income and time\<close>

lemma incomeLoop_foldl:
  "incomeLoop db counts i acc =
     foldl (\<lambda>a k. if k < length counts
                    then dadd a (dmul (income (db ! k)) (double_of_int (counts ! k)))
                    else a)
       acc [i..<length db]"
proof (induction db counts i acc rule: incomeLoop.induct)
  case (1 db counts i acc)
  show ?case
  proof (cases "i < length db")
    case True
    then have "incomeLoop db counts i acc =
        incomeLoop db counts (Suc i)
          (if i < length counts
           then dadd acc (dmul (income (db ! i)) (double_of_int (counts ! i)))
           else acc)"
      by (subst incomeLoop.simps) simp
    also have "\<dots> =
        foldl (\<lambda>a k. if k < length counts
                    then dadd a (dmul (income (db ! k)) (double_of_int (counts ! k)))
                    else a)
          (if i < length counts
           then dadd acc (dmul (income (db ! i)) (double_of_int (counts ! i)))
           else acc)
          [Suc i..<length db]"
      using True by (rule "1.IH")
    finally show ?thesis
      using True by (simp add: upt_conv_Cons)
  next
    case False
    then show ?thesis by (subst incomeLoop.simps) simp
  qed
qed

lemma incomeLoop_all:
  assumes "length counts = length db"
  shows "incomeLoop db counts 0 (Finite 0) =
     foldl (\<lambda>a i. dadd a (dmul (income (db ! i)) (double_of_int (counts ! i))))
       (Finite 0) [0..<length db]"
proof -
  have "foldl (\<lambda>a k. if k < length counts
                    then dadd a (dmul (income (db ! k)) (double_of_int (counts ! k)))
                    else a) acc xs
      = foldl (\<lambda>a i. dadd a (dmul (income (db ! i)) (double_of_int (counts ! i)))) acc xs"
    if "\<forall>k \<in> set xs. k < length counts" for acc xs
    using that by (induction xs arbitrary: acc) simp_all
  with assms show ?thesis by (simp add: incomeLoop_foldl)
qed

lemma calculateIncomePerSec_rate:
  assumes "length (buildingCounts s) = length getBuildings"
  shows "calculateIncomePerSec s =
     s\<lparr>globalIncomePerSec :=
         dmul (if hasSkill s ''auto_click''
               then dadd
                 (foldl (\<lambda>a i. dadd a (dmul (income (getBuildings ! i))
                            (double_of_int (buildingCounts s ! i))))
                    (Finite 0) [0..<length getBuildings])
                 (dmul
                   (foldl (\<lambda>a i. dadd a (dmul (income (getBuildings ! i))
                              (double_of_int (buildingCounts s ! i))))
                      (Finite 0) [0..<length getBuildings])
                   (rnd 0.05))
               else
                 foldl (\<lambda>a i. dadd a (dmul (income (getBuildings ! i))
                            (double_of_int (buildingCounts s ! i))))
                    (Finite 0) [0..<length getBuildings])
           (incomeMultiplier s)\<rparr>"
  using assms
  by (simp add: calculateIncomePerSec_def Let_def incomeLoop_all AUTO_CLICK_BONUS_def)

lemma upt_7: "[0..<7] = [0, 1, 2, 3, 4, 5, 6]"
  by (simp add: upt_rec)

lemma mul_int_int [simp]:
  "dmul (Finite (numeral a)) (double_of_int (numeral b)) = rnd (numeral a * of_int (sint (numeral b :: 32 word)))"
  "dmul (Finite (numeral a)) (double_of_int 0) = Finite 0"
  "dmul (Finite (numeral a)) (double_of_int 1) = rnd (numeral a)"
  "dmul (Finite 1) (double_of_int (numeral b)) = rnd (of_int (sint (numeral b :: 32 word)))"
  "dmul (Finite 1) (double_of_int 0) = Finite 0"
  "dmul (Finite 1) (double_of_int 1) = Finite 1"
  by (simp_all add: double_of_int_def)

lemma base_100:
  "foldl (\<lambda>a i. dadd a (dmul (income (getBuildings ! i))
            (double_of_int ([100, 0, 0, 0, 0, 0, 0] ! i))))
     (Finite 0) [0..<length getBuildings] = Finite 100"
  by (simp add: getBuildings_def upt_7)


lemma base_3:
  "foldl (\<lambda>a i. dadd a (dmul (income (getBuildings ! i))
            (double_of_int ([3, 0, 0, 0, 0, 0, 0] ! i))))
     (Finite 0) [0..<length getBuildings] = Finite 3"
  by (simp add: getBuildings_def upt_7)

lemma acc_step:
  assumes "\<bar>k * sint c\<bar> < 2 ^ 53" and "\<bar>a + k * sint c\<bar> < 2 ^ 53"
  shows "dadd (Finite (of_int a)) (dmul (Finite (of_int k)) (double_of_int c))
       = Finite (of_int (a + k * sint c))"
proof -
  have "dmul (Finite (of_int k)) (double_of_int c) = rnd (of_int (k * sint c))"
    by (simp add: double_of_int_def)
  also have "\<dots> = Finite (of_int (k * sint c))"
    using assms(1) by (rule rnd_of_int)
  finally have m: "dmul (Finite (of_int k)) (double_of_int c) = Finite (of_int (k * sint c))" .
  have "dadd (Finite (of_int a)) (Finite (of_int (k * sint c)))
      = rnd (of_int (a + k * sint c))"
    by simp
  also have "\<dots> = Finite (of_int (a + k * sint c))"
    using assms(2) by (rule rnd_of_int)
  finally show ?thesis unfolding m .
qed

lemma sint_32_range:
  fixes c :: "32 word"
  shows "- (2 ^ 31) \<le> sint c" and "sint c < 2 ^ 31"
  using sint_ge [of c] sint_lt [of c] by simp_all

lemma base_exact:
  fixes cs :: "32 word list"
  shows "foldl (\<lambda>a i. dadd a (dmul (income (getBuildings ! i)) (double_of_int (cs ! i))))
           (Finite 0) [0..<length getBuildings]
       = Finite (of_int (sint (cs ! 0) + 5 * sint (cs ! 1) + 22 * sint (cs ! 2)
           + 85 * sint (cs ! 3) + 350 * sint (cs ! 4) + 1500 * sint (cs ! 5)
           + 8000 * sint (cs ! 6)))"
proof -
  define x0 x1 x2 x3 x4 x5 x6 where x:
    "x0 = sint (cs ! 0)" "x1 = sint (cs ! 1)" "x2 = sint (cs ! 2)" "x3 = sint (cs ! 3)"
    "x4 = sint (cs ! 4)" "x5 = sint (cs ! 5)" "x6 = sint (cs ! 6)"
  have b: "- 2147483648 \<le> x0" "x0 < 2147483648" "- 2147483648 \<le> x1" "x1 < 2147483648"
    "- 2147483648 \<le> x2" "x2 < 2147483648" "- 2147483648 \<le> x3" "x3 < 2147483648"
    "- 2147483648 \<le> x4" "x4 < 2147483648" "- 2147483648 \<le> x5" "x5 < 2147483648"
    "- 2147483648 \<le> x6" "x6 < 2147483648"
    unfolding x using sint_32_range by simp_all
  have s0: "dadd (Finite 0) (dmul (Finite 1) (double_of_int (cs ! 0))) = Finite (of_int x0)"
    using acc_step [of 1 "cs ! 0" 0] b(1,2) by (simp add: x)
  have s1: "dadd (Finite (of_int x0)) (dmul (Finite 5) (double_of_int (cs ! 1)))
      = Finite (of_int (x0 + 5 * x1))"
    using acc_step [of 5 "cs ! 1" x0] b by (simp add: x)
  have s2: "dadd (Finite (of_int (x0 + 5 * x1))) (dmul (Finite 22) (double_of_int (cs ! 2)))
      = Finite (of_int (x0 + 5 * x1 + 22 * x2))"
    using acc_step [of 22 "cs ! 2" "x0 + 5 * x1"] b by (simp add: x)
  have s3: "dadd (Finite (of_int (x0 + 5 * x1 + 22 * x2)))
        (dmul (Finite 85) (double_of_int (cs ! 3)))
      = Finite (of_int (x0 + 5 * x1 + 22 * x2 + 85 * x3))"
    using acc_step [of 85 "cs ! 3" "x0 + 5 * x1 + 22 * x2"] b by (simp add: x)
  have s4: "dadd (Finite (of_int (x0 + 5 * x1 + 22 * x2 + 85 * x3)))
        (dmul (Finite 350) (double_of_int (cs ! 4)))
      = Finite (of_int (x0 + 5 * x1 + 22 * x2 + 85 * x3 + 350 * x4))"
    using acc_step [of 350 "cs ! 4" "x0 + 5 * x1 + 22 * x2 + 85 * x3"] b by (simp add: x)
  have s5: "dadd (Finite (of_int (x0 + 5 * x1 + 22 * x2 + 85 * x3 + 350 * x4)))
        (dmul (Finite 1500) (double_of_int (cs ! 5)))
      = Finite (of_int (x0 + 5 * x1 + 22 * x2 + 85 * x3 + 350 * x4 + 1500 * x5))"
    using acc_step [of 1500 "cs ! 5" "x0 + 5 * x1 + 22 * x2 + 85 * x3 + 350 * x4"] b
    by (simp add: x)
  have s6: "dadd (Finite (of_int (x0 + 5 * x1 + 22 * x2 + 85 * x3 + 350 * x4 + 1500 * x5)))
        (dmul (Finite 8000) (double_of_int (cs ! 6)))
      = Finite (of_int (x0 + 5 * x1 + 22 * x2 + 85 * x3 + 350 * x4 + 1500 * x5 + 8000 * x6))"
    using acc_step [of 8000 "cs ! 6"
        "x0 + 5 * x1 + 22 * x2 + 85 * x3 + 350 * x4 + 1500 * x5"] b
    by (simp add: x)
  have "foldl (\<lambda>a i. dadd a (dmul (income (getBuildings ! i)) (double_of_int (cs ! i))))
           (Finite 0) [0..<length getBuildings]
      = dadd (dadd (dadd (dadd (dadd (dadd (dadd (Finite 0)
          (dmul (Finite 1) (double_of_int (cs ! 0))))
          (dmul (Finite 5) (double_of_int (cs ! 1))))
          (dmul (Finite 22) (double_of_int (cs ! 2))))
          (dmul (Finite 85) (double_of_int (cs ! 3))))
          (dmul (Finite 350) (double_of_int (cs ! 4))))
          (dmul (Finite 1500) (double_of_int (cs ! 5))))
          (dmul (Finite 8000) (double_of_int (cs ! 6)))"
    by (simp add: getBuildings_def upt_7) (simp add: eval_nat_numeral)
  also have "\<dots> = Finite (of_int (x0 + 5 * x1 + 22 * x2 + 85 * x3 + 350 * x4
      + 1500 * x5 + 8000 * x6))"
    by (simp only: s0 s1 s2 s3 s4 s5 s6)
  finally show ?thesis unfolding x .
qed

text \<open>
  Claim C7, as amended. In a state whose \<open>buildingCounts\<close> has one entry per catalog
  building, \<open>calculateIncomePerSec\<close> computes \<open>base\<close>, the binary64 sum over the buildings
  \<open>i\<close>, in catalog order from 0, of the binary64 products
  \<open>catalog[i].income * buildingCounts[i]\<close>, which is exactly the integer sum of
  \<open>income * count\<close> (no step of it rounds); when the skill \<open>auto_click\<close> is owned it
  replaces \<open>base\<close> by the binary64 sum \<open>base + base * 0.05\<close> (not by a product with 1.05);
  it sets the income rate to the binary64 product of that with \<open>incomeMultiplier\<close>, and
  changes nothing else. With \<open>auto_click\<close> owned, a sum of 100 and multiplier 1 the rate
  is 105.
\<close>

theorem calculateIncomePerSec_spec:
  assumes "length (buildingCounts s) = length getBuildings"
    and "base =
      foldl (\<lambda>a i. dadd a (dmul (income (getBuildings ! i))
                 (double_of_int (buildingCounts s ! i))))
        (Finite 0) [0..<length getBuildings]"
  shows "calculateIncomePerSec s =
           s\<lparr>globalIncomePerSec :=
               dmul (if hasSkill s ''auto_click''
                     then dadd base (dmul base (rnd 0.05)) else base)
                 (incomeMultiplier s)\<rparr>
       \<and> base = Finite (of_int (sint (buildingCounts s ! 0)
           + 5 * sint (buildingCounts s ! 1) + 22 * sint (buildingCounts s ! 2)
           + 85 * sint (buildingCounts s ! 3) + 350 * sint (buildingCounts s ! 4)
           + 1500 * sint (buildingCounts s ! 5) + 8000 * sint (buildingCounts s ! 6)))
       \<and> (hasSkill s ''auto_click'' \<and> base = Finite 100 \<and> incomeMultiplier s = Finite 1
          \<longrightarrow> globalIncomePerSec (calculateIncomePerSec s) = Finite 105)"
proof -
  have exact: "base = Finite (of_int (sint (buildingCounts s ! 0)
           + 5 * sint (buildingCounts s ! 1) + 22 * sint (buildingCounts s ! 2)
           + 85 * sint (buildingCounts s ! 3) + 350 * sint (buildingCounts s ! 4)
           + 1500 * sint (buildingCounts s ! 5) + 8000 * sint (buildingCounts s ! 6)))"
    unfolding assms(2) by (rule base_exact)
  have eq: "calculateIncomePerSec s =
           s\<lparr>globalIncomePerSec :=
               dmul (if hasSkill s ''auto_click''
                     then dadd base (dmul base (rnd 0.05)) else base)
                 (incomeMultiplier s)\<rparr>"
    unfolding assms(2) by (rule calculateIncomePerSec_rate [OF assms(1)])
  have "globalIncomePerSec (calculateIncomePerSec s) = Finite 105"
    if "hasSkill s ''auto_click''" "base = Finite 100" "incomeMultiplier s = Finite 1"
    unfolding eq using that mul_100_B AUTO_CLICK_BONUS_def by simp
  with eq exact show ?thesis by blast
qed

text \<open>
  The theorem with 100 Data Miners and \<open>auto_click\<close> (rate 105), and with counts
  3, 2, 0, 0, 0, 0, 1, no skill and multiplier 2 (rate \<open>(3 + 10 + 8000) * 2\<close>).
\<close>

theorem calculateIncomePerSec_spec_witness:
  "globalIncomePerSec (calculateIncomePerSec
     (GameEngine_init 0 0 (Finite 0)\<lparr>buildingCounts := [100, 0, 0, 0, 0, 0, 0],
        ownedSkills := [''auto_click'' \<mapsto> True]\<rparr>)) = Finite 105
   \<and> globalIncomePerSec (calculateIncomePerSec
     (GameEngine_init 0 0 (Finite 0)\<lparr>buildingCounts := [3, 2, 0, 0, 0, 0, 1],
        incomeMultiplier := Finite 2\<rparr>)) = Finite 16026"
proof -
  let ?s = "GameEngine_init 0 0 (Finite 0)\<lparr>buildingCounts := [100, 0, 0, 0, 0, 0, 0],
        ownedSkills := [''auto_click'' \<mapsto> True]\<rparr>"
  let ?t = "GameEngine_init 0 0 (Finite 0)\<lparr>buildingCounts := [3, 2, 0, 0, 0, 0, 1],
        incomeMultiplier := Finite 2\<rparr>"
  have len: "length (buildingCounts ?s) = length getBuildings"
            "length (buildingCounts ?t) = length getBuildings"
    by (simp_all add: getBuildings_def)
  have auto: "hasSkill ?s ''auto_click''" "\<not> hasSkill ?t ''auto_click''"
    by (simp_all add: hasSkill_def GameEngine_init_def)
  have total: "Finite 100 =
      foldl (\<lambda>a i. dadd a (dmul (income (getBuildings ! i))
                 (double_of_int (buildingCounts ?s ! i))))
        (Finite 0) [0..<length getBuildings]"
              "Finite 8013 =
      foldl (\<lambda>a i. dadd a (dmul (income (getBuildings ! i))
                 (double_of_int (buildingCounts ?t ! i))))
        (Finite 0) [0..<length getBuildings]"
    by (simp_all add: getBuildings_def upt_7)
  have one: "incomeMultiplier ?s = Finite 1" "incomeMultiplier ?t = Finite 2"
    by (simp_all add: GameEngine_init_def)
  from calculateIncomePerSec_spec [OF len(1) total(1)] auto(1) one(1)
  have a: "globalIncomePerSec (calculateIncomePerSec ?s) = Finite 105" by blast
  from calculateIncomePerSec_spec [OF len(2) total(2)]
  have "calculateIncomePerSec ?t =
           ?t\<lparr>globalIncomePerSec :=
               dmul (if hasSkill ?t ''auto_click''
                     then dadd (Finite 8013) (dmul (Finite 8013) (rnd 0.05))
                     else Finite 8013)
                 (incomeMultiplier ?t)\<rparr>"
    by blast
  then have b: "globalIncomePerSec (calculateIncomePerSec ?t) = Finite 16026"
    using auto(2) one(2) by simp
  from a b show ?thesis by blast
qed

text \<open>
  The claim as stated fails: with three Data Miners, \<open>auto_click\<close> and multiplier 1 the
  stored rate is the binary64 value \<open>7093169413108531 / 2 ^ 51\<close>, just below 3.15; it is
  neither the real number \<open>3 * 1.05\<close> nor the binary64 product of 3 and 1.05, which is
  \<open>1773292353277133 / 2 ^ 49\<close>, just above 3.15.
\<close>

theorem calculateIncomePerSec_counterexample:
  "globalIncomePerSec (calculateIncomePerSec
     (GameEngine_init 0 0 (Finite 0)\<lparr>buildingCounts := [3, 0, 0, 0, 0, 0, 0],
        ownedSkills := [''auto_click'' \<mapsto> True]\<rparr>)) = Finite (7093169413108531 / 2 ^ 51)
   \<and> (7093169413108531 / 2 ^ 51 :: real) \<noteq> 3 * 1.05 * 1
   \<and> dmul (dmul (Finite 3) (rnd 1.05)) (Finite 1) = Finite (1773292353277133 / 2 ^ 49)
   \<and> (7093169413108531 / 2 ^ 51 :: real) \<noteq> 1773292353277133 / 2 ^ 49"
proof -
  let ?s = "GameEngine_init 0 0 (Finite 0)\<lparr>buildingCounts := [3, 0, 0, 0, 0, 0, 0],
        ownedSkills := [''auto_click'' \<mapsto> True]\<rparr>"
  have len: "length (buildingCounts ?s) = length getBuildings"
    by (simp add: getBuildings_def)
  have "globalIncomePerSec (calculateIncomePerSec ?s)
      = dmul (dadd (Finite 3) (dmul (Finite 3) AUTO_CLICK_BONUS)) (Finite 1)"
    unfolding calculateIncomePerSec_rate [OF len]
    using base_3 by (simp add: hasSkill_def GameEngine_init_def AUTO_CLICK_BONUS_def)
  also have "\<dots> = dmul (Finite (7093169413108531 / 2 ^ 51)) (Finite 1)"
    unfolding mul_3_B add_3_3B ..
  also have "\<dots> = Finite (7093169413108531 / 2 ^ 51)"
    using dmul_exact [of "7093169413108531 / 2 ^ 51" 1]
      is_double_dyadic [of 7093169413108531 51]
    by simp
  finally have a: "globalIncomePerSec (calculateIncomePerSec ?s)
      = Finite (7093169413108531 / 2 ^ 51)" .
  have "dmul (dmul (Finite 3) (rnd 1.05)) (Finite 1)
      = dmul (Finite (1773292353277133 / 2 ^ 49)) (Finite 1)"
    unfolding rnd_105 mul_3_105 ..
  also have "\<dots> = Finite (1773292353277133 / 2 ^ 49)"
    using dmul_exact [of "1773292353277133 / 2 ^ 49" 1]
      is_double_dyadic [of 1773292353277133 49]
    by simp
  finally have b: "dmul (dmul (Finite 3) (rnd 1.05)) (Finite 1)
      = Finite (1773292353277133 / 2 ^ 49)" .
  have c: "(7093169413108531 / 2 ^ 51 :: real) \<noteq> 3 * 1.05 * 1"
    "(7093169413108531 / 2 ^ 51 :: real) \<noteq> 1773292353277133 / 2 ^ 49"
    by simp_all
  from a b c show ?thesis by blast
qed


lemma calculateIncomePerSec_frame:
  "money (calculateIncomePerSec s) = money s"
  "totalEarnings (calculateIncomePerSec s) = totalEarnings s"
  by (simp_all add: calculateIncomePerSec_def Let_def)

lemma calculateIncomePerSec_stale:
  "globalIncomePerSec (calculateIncomePerSec (s\<lparr>globalIncomePerSec := g\<rparr>))
     = globalIncomePerSec (calculateIncomePerSec s)"
  by (simp add: calculateIncomePerSec_def Let_def hasSkill_def)

text \<open>
  Claim C8, as amended. For every state and every \<open>deltaTime\<close> (so for every
  \<open>deltaTime \<ge> 0\<close>, however large), \<open>update\<close> first recomputes the income rate with
  \<open>calculateIncomePerSec\<close>, from the current \<open>buildingCounts\<close>, skills and
  \<open>incomeMultiplier\<close> and whatever rate was stored, and stores it; if the recomputed rate
  is positive, \<open>money\<close> and \<open>totalEarnings\<close> become their binary64 sums with the binary64
  product \<open>rate * deltaTime\<close>, which is exactly \<open>money + rate * deltaTime\<close> whenever that
  product and that sum are binary64 values; if the rate is not positive, \<open>money\<close> and
  \<open>totalEarnings\<close> are unchanged.
\<close>

theorem update_spec:
  assumes "rate = globalIncomePerSec (calculateIncomePerSec s)"
  shows "update s deltaTime =
     (if dlt (Finite 0) rate
      then (calculateIncomePerSec s)
             \<lparr>money := dadd (money s) (dmul rate deltaTime),
              totalEarnings := dadd (totalEarnings s) (dmul rate deltaTime)\<rparr>
      else calculateIncomePerSec s)
   \<and> globalIncomePerSec (update s deltaTime) = rate
   \<and> globalIncomePerSec (calculateIncomePerSec (s\<lparr>globalIncomePerSec := stored\<rparr>)) = rate
   \<and> (length (buildingCounts s) = length getBuildings \<longrightarrow>
        calculateIncomePerSec s = s\<lparr>globalIncomePerSec :=
          dmul (if hasSkill s ''auto_click''
               then dadd
                 (foldl (\<lambda>a i. dadd a (dmul (income (getBuildings ! i))
                            (double_of_int (buildingCounts s ! i))))
                    (Finite 0) [0..<length getBuildings])
                 (dmul
                   (foldl (\<lambda>a i. dadd a (dmul (income (getBuildings ! i))
                              (double_of_int (buildingCounts s ! i))))
                      (Finite 0) [0..<length getBuildings])
                   (rnd 0.05))
               else
                 foldl (\<lambda>a i. dadd a (dmul (income (getBuildings ! i))
                            (double_of_int (buildingCounts s ! i))))
                    (Finite 0) [0..<length getBuildings])
           (incomeMultiplier s)\<rparr>)
   \<and> (dlt (Finite 0) rate \<longrightarrow>
        money (update s deltaTime) = dadd (money s) (dmul rate deltaTime)
      \<and> totalEarnings (update s deltaTime) = dadd (totalEarnings s) (dmul rate deltaTime))
   \<and> (\<forall>m r d. money s = Finite m \<and> rate = Finite r \<and> deltaTime = Finite d \<and> 0 < r
          \<and> is_double (r * d) \<and> is_double (m + r * d)
        \<longrightarrow> money (update s deltaTime) = Finite (m + r * d))
   \<and> (\<not> dlt (Finite 0) rate \<longrightarrow>
        money (update s deltaTime) = money s
      \<and> totalEarnings (update s deltaTime) = totalEarnings s)"
proof -
  have eq: "update s deltaTime =
     (if dlt (Finite 0) rate
      then (calculateIncomePerSec s)
             \<lparr>money := dadd (money s) (dmul rate deltaTime),
              totalEarnings := dadd (totalEarnings s) (dmul rate deltaTime)\<rparr>
      else calculateIncomePerSec s)"
    by (simp add: update_def Let_def addMoney_def calculateIncomePerSec_frame assms)
  have stored: "globalIncomePerSec (update s deltaTime) = rate"
    by (simp add: eq assms)
  have stale: "globalIncomePerSec (calculateIncomePerSec (s\<lparr>globalIncomePerSec := stored\<rparr>))
      = rate"
    by (simp add: assms calculateIncomePerSec_stale)
  have pos: "money (update s deltaTime) = dadd (money s) (dmul rate deltaTime)
      \<and> totalEarnings (update s deltaTime) = dadd (totalEarnings s) (dmul rate deltaTime)"
    if "dlt (Finite 0) rate"
    using that by (simp add: eq)
  have exact: "money (update s deltaTime) = Finite (m + r * d)"
    if "money s = Finite m" "rate = Finite r" "deltaTime = Finite d" "0 < r"
      "is_double (r * d)" "is_double (m + r * d)" for m r d
    unfolding eq using that by (simp add: rnd_exact)
  have non: "money (update s deltaTime) = money s
      \<and> totalEarnings (update s deltaTime) = totalEarnings s"
    if "\<not> dlt (Finite 0) rate"
    using that by (simp add: eq calculateIncomePerSec_frame)
  from eq stored stale pos exact non calculateIncomePerSec_rate [of s]
  show ?thesis by blast
qed

text \<open>
  The theorem with two Data Miners and money 5 for 10 seconds (rate 2, money 25), and
  with no building, a stale stored rate of 7 and money 5 (rate 0, money still 5).
\<close>

theorem update_spec_witness:
  "globalIncomePerSec (update (GameEngine_init 0 0 (Finite 0)\<lparr>money := Finite 5,
        buildingCounts := [2, 0, 0, 0, 0, 0, 0]\<rparr>) (Finite 10)) = Finite 2
   \<and> money (update (GameEngine_init 0 0 (Finite 0)\<lparr>money := Finite 5,
        buildingCounts := [2, 0, 0, 0, 0, 0, 0]\<rparr>) (Finite 10)) = Finite 25
   \<and> totalEarnings (update (GameEngine_init 0 0 (Finite 0)\<lparr>money := Finite 5,
        buildingCounts := [2, 0, 0, 0, 0, 0, 0]\<rparr>) (Finite 10)) = Finite 20
   \<and> money (update (GameEngine_init 0 0 (Finite 7)\<lparr>money := Finite 5\<rparr>) (Finite 10))
       = Finite 5
   \<and> globalIncomePerSec
        (update (GameEngine_init 0 0 (Finite 7)\<lparr>money := Finite 5\<rparr>) (Finite 10))
       = Finite 0"
proof -
  let ?s = "GameEngine_init 0 0 (Finite 0)\<lparr>money := Finite 5,
        buildingCounts := [2, 0, 0, 0, 0, 0, 0]\<rparr>"
  let ?t = "GameEngine_init 0 0 (Finite 7)\<lparr>money := Finite 5\<rparr>"
  have len: "length (buildingCounts ?s) = length getBuildings"
            "length (buildingCounts ?t) = length getBuildings"
    by (simp_all add: getBuildings_def GameEngine_init_def)
  have rs: "Finite 2 = globalIncomePerSec (calculateIncomePerSec ?s)"
    unfolding calculateIncomePerSec_rate [OF len(1)]
    by (simp add: getBuildings_def hasSkill_def GameEngine_init_def upt_7)
  have rt: "Finite 0 = globalIncomePerSec (calculateIncomePerSec ?t)"
    unfolding calculateIncomePerSec_rate [OF len(2)]
    by (simp add: getBuildings_def hasSkill_def GameEngine_init_def upt_7)
  have pos: "dlt (Finite 0) (Finite 2)" and zero: "\<not> dlt (Finite 0) (Finite 0)"
    by simp_all
  have st: "money ?s = Finite 5" "totalEarnings ?s = Finite 0" "money ?t = Finite 5"
    by (simp_all add: GameEngine_init_def)
  have d: "is_double (2 * 10)" "is_double (5 + 2 * 10)"
    using is_double_of_int [of 20] is_double_of_int [of 25] by simp_all
  from update_spec [OF rs, of "Finite 10"] pos
  have a: "globalIncomePerSec (update ?s (Finite 10)) = Finite 2"
    and c: "totalEarnings (update ?s (Finite 10))
          = dadd (totalEarnings ?s) (dmul (Finite 2) (Finite 10))"
    by blast+
  from update_spec [OF rs, of "Finite 10"]
  have "\<forall>m r d. money ?s = Finite m \<and> Finite 2 = Finite r \<and> Finite 10 = Finite d \<and> 0 < r
          \<and> is_double (r * d) \<and> is_double (m + r * d)
        \<longrightarrow> money (update ?s (Finite 10)) = Finite (m + r * d)"
    by blast
  with st(1) d have "money (update ?s (Finite 10)) = Finite (5 + 2 * 10)"
    by simp
  then have b: "money (update ?s (Finite 10)) = Finite 25" by simp
  from c st(2) have c': "totalEarnings (update ?s (Finite 10)) = Finite 20" by simp
  from update_spec [OF rt, of "Finite 10"] zero
  have "money (update ?t (Finite 10)) = money ?t"
    and e: "globalIncomePerSec (update ?t (Finite 10)) = Finite 0"
    by blast+
  with st(3) have d': "money (update ?t (Finite 10)) = Finite 5" by simp
  from a b c' d' e show ?thesis by blast
qed

text \<open>
  The claim as stated fails: with money \<open>2 ^ 53\<close> and one Data Miner (rate 1),
  \<open>update(1)\<close> leaves money at \<open>2 ^ 53\<close>, not at \<open>2 ^ 53 + 1 * 1\<close>.
\<close>

theorem update_counterexample:
  "globalIncomePerSec (calculateIncomePerSec
     (GameEngine_init 0 0 (Finite 0)\<lparr>money := Finite 9007199254740992,
        buildingCounts := [1, 0, 0, 0, 0, 0, 0]\<rparr>)) = Finite 1
   \<and> money (update
     (GameEngine_init 0 0 (Finite 0)\<lparr>money := Finite 9007199254740992,
        buildingCounts := [1, 0, 0, 0, 0, 0, 0]\<rparr>) (Finite 1)) = Finite 9007199254740992
   \<and> (9007199254740992 + 1 * 1 :: real) \<noteq> 9007199254740992"
proof -
  let ?s = "GameEngine_init 0 0 (Finite 0)\<lparr>money := Finite 9007199254740992,
        buildingCounts := [1, 0, 0, 0, 0, 0, 0]\<rparr>"
  have len: "length (buildingCounts ?s) = length getBuildings"
    by (simp add: getBuildings_def GameEngine_init_def)
  have r: "globalIncomePerSec (calculateIncomePerSec ?s) = Finite 1"
    unfolding calculateIncomePerSec_rate [OF len]
    by (simp add: getBuildings_def hasSkill_def GameEngine_init_def upt_7)
  have "money (update ?s (Finite 1)) = Finite 9007199254740992"
    using add_2p53_1
    by (simp add: update_def Let_def addMoney_def r calculateIncomePerSec_frame)
  with r show ?thesis by simp
qed

lemma click_value_exact:
  assumes "c = Finite b" and "is_double (g * b)" and "is_double (1 + g * b)"
    and "is_double (m + (1 + g * b))"
  shows "dadd (Finite m) (dadd (Finite 1) (dmul (Finite g) c)) = Finite (m + (1 + g * b))"
  using assms by (simp add: rnd_exact)

text \<open>
  Claim C9, as amended. For every state, \<open>click\<close> adds 1 to \<open>totalClicks\<close> in 64-bit
  arithmetic (exactly 1 unless \<open>totalClicks\<close> is the largest \<open>long long\<close>) and sets \<open>money\<close>
  and \<open>totalEarnings\<close> to their binary64 sums with the click value
  \<open>1 + globalIncomePerSec * 0.05\<close>, itself computed in binary64 from the stored rate:
  \<open>click\<close> neither recomputes nor changes the rate. The credit is exactly
  \<open>1 + rate * 0.05\<close> (with the binary64 constant 0.05) whenever the product and the two
  sums are binary64 values. With 20 Data Miners and a stored rate of 0 a click is worth
  1, although it is worth 2 once the rate is recomputed.
\<close>

theorem click_spec:
  "click s =
     s\<lparr>totalClicks := totalClicks s + 1,
       money := dadd (money s) (dadd (Finite 1) (dmul (globalIncomePerSec s) (rnd 0.05))),
       totalEarnings :=
         dadd (totalEarnings s) (dadd (Finite 1) (dmul (globalIncomePerSec s) (rnd 0.05)))\<rparr>
   \<and> globalIncomePerSec (click s) = globalIncomePerSec s
   \<and> (sint (totalClicks s) < 2 ^ 63 - 1 \<longrightarrow>
        sint (totalClicks (click s)) = sint (totalClicks s) + 1)
   \<and> (\<forall>m g. money s = Finite m \<and> globalIncomePerSec s = Finite g
          \<and> is_double (g * (3602879701896397 / 2 ^ 56))
          \<and> is_double (1 + g * (3602879701896397 / 2 ^ 56))
          \<and> is_double (m + (1 + g * (3602879701896397 / 2 ^ 56)))
        \<longrightarrow> money (click s) = Finite (m + (1 + g * (3602879701896397 / 2 ^ 56))))
   \<and> money (click (GameEngine_init 0 0 (Finite 0)\<lparr>buildingCounts := [20, 0, 0, 0, 0, 0, 0]\<rparr>))
       = Finite 1
   \<and> money (click (calculateIncomePerSec
        (GameEngine_init 0 0 (Finite 0)\<lparr>buildingCounts := [20, 0, 0, 0, 0, 0, 0]\<rparr>)))
       = Finite 2"
proof -
  let ?t = "GameEngine_init 0 0 (Finite 0)\<lparr>buildingCounts := [20, 0, 0, 0, 0, 0, 0]\<rparr>"
  have eq: "click s =
     s\<lparr>totalClicks := totalClicks s + 1,
       money := dadd (money s) (dadd (Finite 1) (dmul (globalIncomePerSec s) (rnd 0.05))),
       totalEarnings :=
         dadd (totalEarnings s) (dadd (Finite 1) (dmul (globalIncomePerSec s) (rnd 0.05)))\<rparr>"
    for s
    by (simp add: click_def addMoney_def Let_def)
  have count: "sint (totalClicks (click s)) = sint (totalClicks s) + 1"
    if "sint (totalClicks s) < 2 ^ 63 - 1"
  proof -
    have "- (2 ^ 63) \<le> sint (totalClicks s)"
      using sint_ge [of "totalClicks s"] by simp
    with that have "sint (totalClicks s + 1) = sint (totalClicks s) + sint (1 :: 64 word)"
      by (intro sint_add_64) simp_all
    then show ?thesis by (simp add: eq)
  qed
  have exact: "money (click s) = Finite (m + (1 + g * (3602879701896397 / 2 ^ 56)))"
    if "money s = Finite m" "globalIncomePerSec s = Finite g"
      "is_double (g * (3602879701896397 / 2 ^ 56))"
      "is_double (1 + g * (3602879701896397 / 2 ^ 56))"
      "is_double (m + (1 + g * (3602879701896397 / 2 ^ 56)))" for m g
    unfolding eq using that(1,2) click_value_exact [OF rnd_005 that(3,4,5)]
    by simp
  have len: "length (buildingCounts ?t) = length getBuildings"
    by (simp add: getBuildings_def)
  have "globalIncomePerSec (calculateIncomePerSec ?t) = Finite 20"
    unfolding calculateIncomePerSec_rate [OF len]
    by (simp add: getBuildings_def hasSkill_def GameEngine_init_def upt_7)
  moreover have "money (calculateIncomePerSec ?t) = Finite 0"
    by (simp add: calculateIncomePerSec_def Let_def GameEngine_init_def)
  moreover have "money ?t = Finite 0" "globalIncomePerSec ?t = Finite 0"
    by (simp_all add: GameEngine_init_def)
  ultimately have stale: "money (click ?t) = Finite 1"
    "money (click (calculateIncomePerSec ?t)) = Finite 2"
    using mul_20_B rnd_005 by (simp_all add: eq)
  from eq [of s] count exact stale show ?thesis
    by (simp only: simp_thms) simp
qed


text \<open>
  The theorem at a state with money 2, a stored rate of 64 and 41 clicks: the click is
  worth \<open>1 + 64 * 0.05\<close> in binary64, exactly, and \<open>totalClicks\<close> becomes 42.
\<close>

theorem click_spec_witness:
  "money (click (GameEngine_init 0 0 (Finite 64)\<lparr>money := Finite 2, totalClicks := 41\<rparr>))
     = Finite (6980579422424269 / 2 ^ 50)
   \<and> sint (totalClicks
        (click (GameEngine_init 0 0 (Finite 64)\<lparr>money := Finite 2, totalClicks := 41\<rparr>)))
     = 42"
proof -
  let ?s = "GameEngine_init 0 0 (Finite 64)\<lparr>money := Finite 2, totalClicks := 41\<rparr>"
  have st: "money ?s = Finite 2" "globalIncomePerSec ?s = Finite 64"
    "sint (totalClicks ?s) = 41"
    by (simp_all add: GameEngine_init_def)
  have d1: "is_double (64 * (3602879701896397 / 2 ^ 56))"
    using is_double_dyadic [of 3602879701896397 50] by simp
  have d2: "is_double (1 + 64 * (3602879701896397 / 2 ^ 56))"
    using is_double_dyadic [of 4728779608739021 50] by simp
  have d3: "is_double (2 + (1 + 64 * (3602879701896397 / 2 ^ 56)))"
    using is_double_dyadic [of 6980579422424269 50] by simp
  from click_spec [of ?s] st(3)
  have a: "sint (totalClicks (click ?s)) = sint (totalClicks ?s) + 1" by simp
  from click_spec [of ?s]
  have "\<forall>m g. money ?s = Finite m \<and> globalIncomePerSec ?s = Finite g
          \<and> is_double (g * (3602879701896397 / 2 ^ 56))
          \<and> is_double (1 + g * (3602879701896397 / 2 ^ 56))
          \<and> is_double (m + (1 + g * (3602879701896397 / 2 ^ 56)))
        \<longrightarrow> money (click ?s) = Finite (m + (1 + g * (3602879701896397 / 2 ^ 56)))"
    by blast
  with st(1,2) d1 d2 d3
  have "money (click ?s) = Finite (2 + (1 + 64 * (3602879701896397 / 2 ^ 56)))"
    by blast
  then have b: "money (click ?s) = Finite (6980579422424269 / 2 ^ 50)" by simp
  from a b st(3) show ?thesis by simp
qed

text \<open>
  The claim as stated (exact real and integer arithmetic) fails: with money \<open>2 ^ 53\<close> and a
  stored rate of 0 a click leaves money at \<open>2 ^ 53\<close>, not \<open>2 ^ 53 + 1\<close>; with
  \<open>totalClicks\<close> at the largest \<open>long long\<close> a click leaves it at the smallest.
\<close>

theorem click_counterexample:
  "money (click (GameEngine_init 0 0 (Finite 0)\<lparr>money := Finite 9007199254740992\<rparr>))
     = Finite 9007199254740992
   \<and> (9007199254740992 + (1 + 0 * 0.05) :: real) \<noteq> 9007199254740992
   \<and> sint (totalClicks
        (click (GameEngine_init 0 0 (Finite 0)\<lparr>totalClicks := 9223372036854775807\<rparr>)))
     = - 9223372036854775808
   \<and> sint (9223372036854775807 :: 64 word) + 1 = 9223372036854775808"
  using add_2p53_1 rnd_005
  by (simp add: click_def addMoney_def Let_def GameEngine_init_def)

section \<open>The state invariant\<close>

text \<open>
  Claim C10. Every sequence of public operations from the freshly constructed engine is
  claimed to keep the state invariant. The constructor leaves \<open>globalIncomePerSec\<close>
  uninitialised and \<open>click\<close> reads it: on a fresh engine whose memory holds the rate
  -100, the single operation \<open>click\<close> leaves \<open>money = 1 + (-100) * 0.05 = -4\<close> (every step
  of this computation is exact in binary64), and the invariant, which held after
  construction, no longer holds.
\<close>

theorem click_on_fresh_engine:
  "run pw (GameEngine_init 0 0 (Finite (- 100))) [Click]
     = Some (GameEngine_init 0 0 (Finite (- 100))
              \<lparr>totalClicks := 1, money := Finite (- 4), totalEarnings := Finite (- 4)\<rparr>)
   \<and> invariant (GameEngine_init 0 0 (Finite (- 100)))
   \<and> \<not> invariant (GameEngine_init 0 0 (Finite (- 100))
          \<lparr>totalClicks := 1, money := Finite (- 4), totalEarnings := Finite (- 4)\<rparr>)"
  using mul_m100_B
  by (simp add: click_def addMoney_def Let_def invariant_def GameEngine_init_def)


section \<open>Prestige\<close>

lemma rnd_sqrt_eval:
  assumes "2 powi e \<le> sqrt a" and "sqrt a < 2 powi (e + 1)" and "- 1022 \<le> e"
    and "(real_of_int n - 1 / 2) * 2 powi (e - 52) < sqrt a"
    and "sqrt a < (real_of_int n + 1 / 2) * 2 powi (e - 52)"
    and "\<bar>real_of_int n * 2 powi (e - 52)\<bar> < 2 powi 1024"
  shows "rnd (sqrt a) = Finite (of_int n * 2 powi (e - 52))"
proof -
  have u: "(0::real) < 2 powi (e - 52)" by (rule two_powi_pos)
  have "0 < sqrt a"
    using assms(1) two_powi_pos [of e] by linarith
  then have abs: "\<bar>sqrt a\<bar> = sqrt a" by simp
  from assms(4) u have "real_of_int n - 1 / 2 < sqrt a / 2 powi (e - 52)"
    by (simp add: pos_less_divide_eq)
  moreover from assms(5) u have "sqrt a / 2 powi (e - 52) < real_of_int n + 1 / 2"
    by (simp add: pos_divide_less_eq)
  ultimately have "rne (sqrt a / 2 powi (e - 52)) = n" by (rule rne_near)
  with assms(1,2,3,6) show ?thesis
    by (intro rnd_eval) (simp_all only: abs)
qed

lemma rnd_sqrt_2: "rnd (sqrt 2) = Finite (6369051672525773 / 2 ^ 52)"
proof -
  have "rnd (sqrt 2) = Finite (of_int 6369051672525773 * 2 powi (0 - 52))"
  proof (rule rnd_sqrt_eval)
    show "(2::real) powi 0 \<le> sqrt 2" by simp
    show "sqrt 2 < 2 powi (0 + 1)" by (rule real_less_lsqrt) simp_all
    show "(real_of_int 6369051672525773 - 1 / 2) * 2 powi (0 - 52) < sqrt 2"
      by (rule real_less_rsqrt) (simp add: power_int_minus power2_eq_square)
    show "sqrt 2 < (real_of_int 6369051672525773 + 1 / 2) * 2 powi (0 - 52)"
      by (rule real_less_lsqrt) (simp_all add: power_int_minus power2_eq_square)
  qed (simp_all add: power_int_minus)
  then show ?thesis by (simp add: power_int_minus)
qed

lemma rnd_sqrt_near_25: "rnd (sqrt (7036874417766399 / 2 ^ 48)) = Finite 5"
proof -
  have "rnd (sqrt (7036874417766399 / 2 ^ 48))
      = Finite (of_int 5629499534213120 * 2 powi (2 - 52))"
  proof (rule rnd_sqrt_eval)
    show "(2::real) powi 2 \<le> sqrt (7036874417766399 / 2 ^ 48)"
      by (rule real_le_rsqrt) simp
    show "sqrt (7036874417766399 / 2 ^ 48) < 2 powi (2 + 1)"
      by (rule real_less_lsqrt) simp_all
    show "(real_of_int 5629499534213120 - 1 / 2) * 2 powi (2 - 52)
        < sqrt (7036874417766399 / 2 ^ 48)"
      by (rule real_less_rsqrt) (simp add: power_int_minus power2_eq_square)
    show "sqrt (7036874417766399 / 2 ^ 48)
        < (real_of_int 5629499534213120 + 1 / 2) * 2 powi (2 - 52)"
      by (rule real_less_lsqrt) (simp_all add: power_int_minus power2_eq_square)
  qed (simp_all add: power_int_minus)
  then show ?thesis by (simp add: power_int_minus)
qed

lemma div_m_million: "ddiv (Finite (6710886399999999 / 2 ^ 28)) (Finite 1000000) = Finite (7036874417766399 / 2 ^ 48)"
  using rnd_eval [of "4" "6710886399999999 / 2 ^ 28 / 1000000" "7036874417766399"]
  by (simp add: rne_def Let_def)

lemma floor_sqrt_near_25: "\<lfloor>sqrt (6710886399999999 / 2 ^ 28 / 1000000)\<rfloor> = (4::int)"
proof -
  have "4 \<le> sqrt (6710886399999999 / 2 ^ 28 / 1000000)"
    by (rule real_le_rsqrt) simp
  moreover have "sqrt (6710886399999999 / 2 ^ 28 / 1000000) < 5"
    by (rule real_less_lsqrt) simp_all
  ultimately show ?thesis by (simp add: floor_eq_iff)
qed


lemma sint_word_of_int_64:
  assumes "- (2 ^ 63) \<le> t" and "t < 2 ^ 63"
  shows "sint (word_of_int t :: 64 word) = t"
  using assms by (simp add: sint_sbintrunc' signed_take_bit_int_eq_self)

lemma to_long_long_floor:
  assumes "0 \<le> r" and "\<lfloor>r\<rfloor> < 2 ^ 63"
  shows "to_long_long (dfloor (Finite r)) = Some (word_of_int \<lfloor>r\<rfloor>)"
proof -
  from assms(1) have "0 \<le> \<lfloor>r\<rfloor>" by simp
  with assms(2) show ?thesis by (simp add: to_long_long_def Let_def)
qed

lemma dsqrt_nonneg:
  assumes "dsqrt x = Finite y"
  shows "0 \<le> y"
proof (cases x)
  case (Finite a)
  show ?thesis
  proof (cases "a < 0")
    case True
    with Finite assms show ?thesis by simp
  next
    case False
    with Finite assms have "rnd (sqrt a) = Finite y" by simp
    moreover from False have "0 \<le> sqrt a" by simp
    ultimately show ?thesis using rnd_nonneg [of "sqrt a"] by auto
  qed
qed (use assms in simp_all)

lemma potential_nonneg:
  assumes "calculatePrestigePotential s = Some p"
  shows "0 \<le> sint p"
proof (cases "dlt (money s) (Finite 1000000)")
  case True
  with assms show ?thesis by (simp add: calculatePrestigePotential_def)
next
  case False
  let ?r = "dsqrt (ddiv (money s) (Finite 1000000))"
  from False assms have conv: "to_long_long (dfloor ?r) = Some p"
    by (simp add: calculatePrestigePotential_def)
  show ?thesis
  proof (cases ?r)
    case (Finite y)
    then have y: "0 \<le> y" by (rule dsqrt_nonneg)
    then have "0 \<le> \<lfloor>y\<rfloor>" by simp
    with conv Finite y have "\<lfloor>y\<rfloor> < 2 ^ 63" "p = word_of_int \<lfloor>y\<rfloor>"
      by (auto simp: to_long_long_def Let_def split: if_splits)
    with \<open>0 \<le> \<lfloor>y\<rfloor>\<close> show ?thesis by (simp add: sint_word_of_int_64)
  qed (use conv in \<open>simp_all add: to_long_long_def\<close>)
qed

text \<open>
  Claim C2, as amended. \<open>calculatePrestigePotential\<close> returns 0 when \<open>money < 1000000\<close>.
  Otherwise it divides \<open>money\<close> by 1000000 in binary64, takes the binary64 square root of
  that quotient, and returns its floor, which is never negative: this is not always the
  floor of the real \<open>sqrt (money / 1000000)\<close>. It returns no defined value when that
  floor is \<open>2 ^ 63\<close> or more and when \<open>money\<close> is infinite or NaN. With
  \<open>money = 2000000\<close> it returns 1.
\<close>

theorem calculatePrestigePotential_spec:
  "calculatePrestigePotential s =
     (if dlt (money s) (Finite 1000000) then Some 0
      else to_long_long (dfloor (dsqrt (ddiv (money s) (Finite 1000000)))))
   \<and> (\<forall>m. money s = Finite m \<and> m < 1000000 \<longrightarrow> calculatePrestigePotential s = Some 0)
   \<and> (\<forall>m q r. money s = Finite m \<and> 1000000 \<le> m
          \<and> rnd (m / 1000000) = Finite q \<and> rnd (sqrt q) = Finite r \<and> \<lfloor>r\<rfloor> < 2 ^ 63
        \<longrightarrow> calculatePrestigePotential s = Some (word_of_int \<lfloor>r\<rfloor>)
          \<and> sint (word_of_int \<lfloor>r\<rfloor> :: 64 word) = \<lfloor>r\<rfloor>)
   \<and> (\<forall>p. calculatePrestigePotential s = Some p \<longrightarrow> 0 \<le> sint p)
   \<and> (money s = PInf \<or> money s = NaN \<longrightarrow> calculatePrestigePotential s = None)
   \<and> (money s = Finite 2000000 \<longrightarrow> calculatePrestigePotential s = Some 1)"
proof -
  have def: "calculatePrestigePotential s =
     (if dlt (money s) (Finite 1000000) then Some 0
      else to_long_long (dfloor (dsqrt (ddiv (money s) (Finite 1000000)))))"
    by (rule calculatePrestigePotential_def)
  have low: "\<forall>m. money s = Finite m \<and> m < 1000000 \<longrightarrow> calculatePrestigePotential s = Some 0"
    by (simp add: calculatePrestigePotential_def)
  have high: "calculatePrestigePotential s = Some (word_of_int \<lfloor>r\<rfloor>)
          \<and> sint (word_of_int \<lfloor>r\<rfloor> :: 64 word) = \<lfloor>r\<rfloor>"
    if m: "money s = Finite m" "1000000 \<le> m" and q: "rnd (m / 1000000) = Finite q"
      and r: "rnd (sqrt q) = Finite r" and fit: "\<lfloor>r\<rfloor> < 2 ^ 63" for m q r
  proof -
    from m(2) have "0 \<le> m / 1000000" by simp
    with q have q0: "0 \<le> q" using rnd_nonneg [of "m / 1000000"] by auto
    then have "0 \<le> sqrt q" by simp
    with r have r0: "0 \<le> r" using rnd_nonneg [of "sqrt q"] by auto
    from m(2) have "\<not> m < 1000000" by simp
    with m(1) have "calculatePrestigePotential s
        = to_long_long (dfloor (dsqrt (rnd (m / 1000000))))"
      by (simp add: calculatePrestigePotential_def)
    also from q0 r have "dsqrt (rnd (m / 1000000)) = Finite r"
      unfolding q by simp
    also have "to_long_long (dfloor (Finite r)) = Some (word_of_int \<lfloor>r\<rfloor>)"
      using r0 fit by (rule to_long_long_floor)
    finally have val: "calculatePrestigePotential s = Some (word_of_int \<lfloor>r\<rfloor>)" .
    from r0 have "0 \<le> \<lfloor>r\<rfloor>" by simp
    moreover have "- (2 ^ 63) \<le> (0::int)" by simp
    ultimately have "- (2 ^ 63) \<le> \<lfloor>r\<rfloor>" by (rule order_trans [rotated])
    then have "sint (word_of_int \<lfloor>r\<rfloor> :: 64 word) = \<lfloor>r\<rfloor>"
      using fit by (rule sint_word_of_int_64)
    with val show ?thesis by (rule conjI)
  qed
  then have high': "\<forall>m q r. money s = Finite m \<and> 1000000 \<le> m
          \<and> rnd (m / 1000000) = Finite q \<and> rnd (sqrt q) = Finite r \<and> \<lfloor>r\<rfloor> < 2 ^ 63
        \<longrightarrow> calculatePrestigePotential s = Some (word_of_int \<lfloor>r\<rfloor>)
          \<and> sint (word_of_int \<lfloor>r\<rfloor> :: 64 word) = \<lfloor>r\<rfloor>"
    by blast
  have nonneg: "\<forall>p. calculatePrestigePotential s = Some p \<longrightarrow> 0 \<le> sint p"
    using potential_nonneg [of s] by blast
  have none: "money s = PInf \<or> money s = NaN \<longrightarrow> calculatePrestigePotential s = None"
    by (auto simp: calculatePrestigePotential_def to_long_long_def)
  have two: "money s = Finite 2000000 \<longrightarrow> calculatePrestigePotential s = Some 1"
  proof
    assume m: "money s = Finite 2000000"
    have q: "rnd (2000000 / 1000000) = Finite 2" by simp
    have f: "\<lfloor>6369051672525773 / 2 ^ 52 :: real\<rfloor> = 1" by simp
    then have "\<lfloor>6369051672525773 / 2 ^ 52 :: real\<rfloor> < 2 ^ 63" by (simp only:) simp
    from high [OF m _ q rnd_sqrt_2 this]
    have "calculatePrestigePotential s
        = Some (word_of_int \<lfloor>6369051672525773 / 2 ^ 52 :: real\<rfloor>)"
      by simp
    then show "calculatePrestigePotential s = Some 1"
      unfolding f by simp
  qed
  from def low high' nonneg none two show ?thesis
    by (intro conjI)
qed


text \<open>
  The theorem at money 2000000 (potential 1), 999999.5 (potential 0), 4000000 (quotient
  4, root 2, potential 2) and at infinite money (no defined value).
\<close>

theorem calculatePrestigePotential_spec_witness:
  "calculatePrestigePotential (GameEngine_init 0 0 (Finite 0)\<lparr>money := Finite 2000000\<rparr>)
     = Some 1
   \<and> calculatePrestigePotential (GameEngine_init 0 0 (Finite 0)\<lparr>money := Finite 999999.5\<rparr>)
     = Some 0
   \<and> calculatePrestigePotential (GameEngine_init 0 0 (Finite 0)\<lparr>money := Finite 4000000\<rparr>)
     = Some 2
   \<and> calculatePrestigePotential (GameEngine_init 0 0 (Finite 0)\<lparr>money := PInf\<rparr>) = None"
proof -
  let ?a = "GameEngine_init 0 0 (Finite 0)\<lparr>money := Finite 2000000\<rparr>"
  let ?b = "GameEngine_init 0 0 (Finite 0)\<lparr>money := Finite 999999.5\<rparr>"
  let ?c = "GameEngine_init 0 0 (Finite 0)\<lparr>money := Finite 4000000\<rparr>"
  let ?d = "GameEngine_init 0 0 (Finite 0)\<lparr>money := PInf\<rparr>"
  have ma: "money ?a = Finite 2000000" by simp
  with calculatePrestigePotential_spec [of ?a]
  have a: "calculatePrestigePotential ?a = Some 1" by blast
  have "money ?b = Finite 999999.5 \<and> (999999.5 :: real) < 1000000" by simp
  with calculatePrestigePotential_spec [of ?b]
  have b: "calculatePrestigePotential ?b = Some 0" by blast
  have "money ?c = Finite 4000000 \<and> (1000000 :: real) \<le> 4000000
      \<and> rnd (4000000 / 1000000) = Finite 4 \<and> rnd (sqrt 4) = Finite 2
      \<and> \<lfloor>2 :: real\<rfloor> < 2 ^ 63"
    by simp
  with calculatePrestigePotential_spec [of ?c]
  have "calculatePrestigePotential ?c = Some (word_of_int \<lfloor>2 :: real\<rfloor>)" by blast
  then have c: "calculatePrestigePotential ?c = Some 2" by simp
  have "money ?d = PInf \<or> money ?d = NaN" by simp
  with calculatePrestigePotential_spec [of ?d]
  have d: "calculatePrestigePotential ?d = None" by blast
  from a b c d show ?thesis by blast
qed

text \<open>
  The claim as stated fails: with the binary64 money \<open>6710886399999999 / 2 ^ 28\<close>
  (24999999.999999996, not below 1000000) the quotient rounds to
  \<open>7036874417766399 / 2 ^ 48\<close>, its square root rounds to 5, and the function returns 5,
  whereas the floor of the real \<open>sqrt (money / 1000000)\<close> is 4.
\<close>

theorem calculatePrestigePotential_counterexample:
  "calculatePrestigePotential
     (GameEngine_init 0 0 (Finite 0)\<lparr>money := Finite (6710886399999999 / 2 ^ 28)\<rparr>) = Some 5
   \<and> \<lfloor>sqrt (6710886399999999 / 2 ^ 28 / 1000000)\<rfloor> = (4::int)
   \<and> \<not> (6710886399999999 / 2 ^ 28 :: real) < 1000000"
proof -
  let ?s = "GameEngine_init 0 0 (Finite 0)\<lparr>money := Finite (6710886399999999 / 2 ^ 28)\<rparr>"
  have big: "\<not> (6710886399999999 / 2 ^ 28 :: real) < 1000000" by simp
  then have "calculatePrestigePotential ?s
      = to_long_long (dfloor (dsqrt
          (ddiv (Finite (6710886399999999 / 2 ^ 28)) (Finite 1000000))))"
    by (simp add: calculatePrestigePotential_def)
  also have "\<dots> = to_long_long (dfloor (dsqrt (Finite (7036874417766399 / 2 ^ 48))))"
    unfolding div_m_million ..
  also have "dsqrt (Finite (7036874417766399 / 2 ^ 48)) = Finite 5"
    using rnd_sqrt_near_25 by simp
  also have "to_long_long (dfloor (Finite 5)) = Some 5"
    by (simp add: to_long_long_def)
  finally have "calculatePrestigePotential ?s = Some 5" .
  with floor_sqrt_near_25 big show ?thesis by blast
qed

lemma potential_million:
  "money s = Finite 1000000 \<Longrightarrow> calculatePrestigePotential s = Some 1"
  by (simp add: calculatePrestigePotential_def to_long_long_def)

lemma hasSkill_ownedSkills:
  "ownedSkills s' = ownedSkills s \<Longrightarrow> \<forall>k. hasSkill s k \<longrightarrow> hasSkill s' k"
  by (simp add: hasSkill_def)

text \<open>
  Claim C1, as amended. Let \<open>p\<close> be the value \<open>calculatePrestigePotential\<close> returns in a
  state where it returns one; \<open>p\<close> is never negative. If \<open>p > 0\<close>, \<open>doPrestige\<close> adds \<open>p\<close> to
  \<open>neuralData\<close> in 64-bit arithmetic, which is exactly \<open>p\<close> more whenever
  \<open>neuralData + p\<close> does not exceed the largest \<open>long long\<close>; it sets \<open>money\<close> to 0, every
  entry of \<open>buildingCounts\<close> to 0 (the length is kept) and \<open>incomeMultiplier\<close> to 1, changes
  no other member, and every skill that was owned is still owned. If \<open>p = 0\<close>,
  \<open>doPrestige\<close> leaves the whole state as it was.
\<close>

theorem doPrestige_spec:
  assumes "calculatePrestigePotential s = Some p"
  shows "0 \<le> sint p
       \<and> (0 < sint p \<longrightarrow>
           (\<exists>s'. doPrestige s = Some s'
              \<and> s' = s\<lparr>neuralData := neuralData s + p, money := Finite 0,
                        buildingCounts := replicate (length (buildingCounts s)) 0,
                        incomeMultiplier := Finite 1\<rparr>
              \<and> neuralData s' = neuralData s + p
              \<and> (sint (neuralData s) + sint p < 2 ^ 63 \<longrightarrow>
                   sint (neuralData s') = sint (neuralData s) + sint p)
              \<and> money s' = Finite 0
              \<and> length (buildingCounts s') = length (buildingCounts s)
              \<and> (\<forall>c \<in> set (buildingCounts s'). c = 0)
              \<and> incomeMultiplier s' = Finite 1
              \<and> (\<forall>skillId. hasSkill s skillId \<longrightarrow> hasSkill s' skillId)))
       \<and> (p = 0 \<longrightarrow> doPrestige s = Some s)"
proof -
  have nonneg: "0 \<le> sint p" using assms by (rule potential_nonneg)
  let ?s' = "s\<lparr>neuralData := neuralData s + p, money := Finite 0,
                        buildingCounts := replicate (length (buildingCounts s)) 0,
                        incomeMultiplier := Finite 1\<rparr>"
  have exact: "sint (neuralData ?s') = sint (neuralData s) + sint p"
    if "sint (neuralData s) + sint p < 2 ^ 63"
  proof -
    have "- (2 ^ 63) \<le> sint (neuralData s)"
      using sint_ge [of "neuralData s"] by simp
    with nonneg have "- (2 ^ 63) \<le> sint (neuralData s) + sint p" by linarith
    then have "sint (neuralData s + p) = sint (neuralData s) + sint p"
      using that by (rule sint_add_64)
    then show ?thesis by simp
  qed
  have reset: "doPrestige s = Some ?s'" if "0 < sint p"
    using that assms by (simp add: doPrestige_def)
  have keep: "\<forall>skillId. hasSkill s skillId \<longrightarrow> hasSkill ?s' skillId"
    by (rule hasSkill_ownedSkills) simp
  have zero: "doPrestige s = Some s" if "p = 0"
    using that assms by (simp add: doPrestige_def)
  have fields: "neuralData ?s' = neuralData s + p" "money ?s' = Finite 0"
    "length (buildingCounts ?s') = length (buildingCounts s)"
    "\<forall>c \<in> set (buildingCounts ?s'). c = 0" "incomeMultiplier ?s' = Finite 1"
    by simp_all
  from nonneg reset exact keep zero fields show ?thesis by blast
qed


text \<open>
  The theorem at two states: one with money 1000000 (potential 1), seven Neural Data,
  buildings and the skill \<open>cheaper\<close>; one with money 999999 (potential 0).
\<close>

theorem doPrestige_spec_witness:
  "calculatePrestigePotential
     (GameEngine_init 0 0 (Finite 0)\<lparr>money := Finite 1000000, neuralData := 7,
        buildingCounts := [3, 1, 0, 0, 0, 0, 0],
        ownedSkills := [''cheaper'' \<mapsto> True], incomeMultiplier := Finite 2\<rparr>) = Some 1
   \<and> doPrestige
     (GameEngine_init 0 0 (Finite 0)\<lparr>money := Finite 1000000, neuralData := 7,
        buildingCounts := [3, 1, 0, 0, 0, 0, 0],
        ownedSkills := [''cheaper'' \<mapsto> True], incomeMultiplier := Finite 2\<rparr>)
     = Some (GameEngine_init 0 0 (Finite 0)\<lparr>money := Finite 0, neuralData := 8,
        buildingCounts := [0, 0, 0, 0, 0, 0, 0],
        ownedSkills := [''cheaper'' \<mapsto> True], incomeMultiplier := Finite 1\<rparr>)
   \<and> hasSkill
     (GameEngine_init 0 0 (Finite 0)\<lparr>money := Finite 0, neuralData := 8,
        buildingCounts := [0, 0, 0, 0, 0, 0, 0],
        ownedSkills := [''cheaper'' \<mapsto> True], incomeMultiplier := Finite 1\<rparr>) ''cheaper''
   \<and> calculatePrestigePotential (GameEngine_init 0 0 (Finite 0)\<lparr>money := Finite 999999\<rparr>)
     = Some 0
   \<and> doPrestige (GameEngine_init 0 0 (Finite 0)\<lparr>money := Finite 999999\<rparr>)
       = Some (GameEngine_init 0 0 (Finite 0)\<lparr>money := Finite 999999\<rparr>)"
proof -
  let ?s = "GameEngine_init 0 0 (Finite 0)\<lparr>money := Finite 1000000, neuralData := 7,
        buildingCounts := [3, 1, 0, 0, 0, 0, 0],
        ownedSkills := [''cheaper'' \<mapsto> True], incomeMultiplier := Finite 2\<rparr>"
  let ?s' = "?s\<lparr>neuralData := neuralData ?s + 1, money := Finite 0,
                        buildingCounts := replicate (length (buildingCounts ?s)) 0,
                        incomeMultiplier := Finite 1\<rparr>"
  let ?t = "GameEngine_init 0 0 (Finite 0)\<lparr>money := Finite 999999\<rparr>"
  have p: "calculatePrestigePotential ?s = Some 1"
    by (rule potential_million) simp
  have q: "calculatePrestigePotential ?t = Some 0"
    by (simp add: calculatePrestigePotential_def)
  have owned: "hasSkill ?s ''cheaper''"
    by (simp add: hasSkill_def)
  have pos: "0 < sint (1 :: 64 word)" by simp
  from doPrestige_spec [OF p] pos
  obtain s' where s': "doPrestige ?s = Some s'" "s' = ?s'"
    and keep: "\<forall>skillId. hasSkill ?s skillId \<longrightarrow> hasSkill s' skillId"
    by blast
  from s' have a: "doPrestige ?s = Some ?s'" by simp
  from keep owned s'(2) have b: "hasSkill ?s' ''cheaper''" by blast
  have e: "?s' = GameEngine_init 0 0 (Finite 0)\<lparr>money := Finite 0, neuralData := 8,
        buildingCounts := [0, 0, 0, 0, 0, 0, 0],
        ownedSkills := [''cheaper'' \<mapsto> True], incomeMultiplier := Finite 1\<rparr>"
    by (simp add: GameEngine_init_def numeral_eq_Suc)
  from doPrestige_spec [OF q] have c: "doPrestige ?t = Some ?t" by blast
  from p q a b c show ?thesis unfolding e by blast
qed

text \<open>
  The claim as stated fails: with \<open>neuralData\<close> at the largest \<open>long long\<close> and money
  1000000 the potential is 1 and \<open>doPrestige\<close> leaves \<open>neuralData\<close> at the smallest
  \<open>long long\<close>, not at one more than before.
\<close>

theorem doPrestige_counterexample:
  "calculatePrestigePotential
     (GameEngine_init 0 0 (Finite 0)\<lparr>money := Finite 1000000,
        neuralData := 9223372036854775807\<rparr>) = Some 1
   \<and> doPrestige
     (GameEngine_init 0 0 (Finite 0)\<lparr>money := Finite 1000000,
        neuralData := 9223372036854775807\<rparr>)
     = Some (GameEngine_init 0 0 (Finite 0)\<lparr>money := Finite 0,
        neuralData := - 9223372036854775808\<rparr>)
   \<and> sint (9223372036854775807 :: 64 word) + 1 = 9223372036854775808
   \<and> sint (- 9223372036854775808 :: 64 word) = - 9223372036854775808"
proof -
  let ?s = "GameEngine_init 0 0 (Finite 0)\<lparr>money := Finite 1000000,
        neuralData := 9223372036854775807\<rparr>"
  have p: "calculatePrestigePotential ?s = Some 1"
    by (rule potential_million) simp
  then have "doPrestige ?s
     = Some (GameEngine_init 0 0 (Finite 0)\<lparr>money := Finite 0,
        neuralData := - 9223372036854775808\<rparr>)"
    by (simp add: doPrestige_def GameEngine_init_def)
  with p show ?thesis by simp
qed


section \<open>Skill purchase\<close>

lemma hasSkill_subscript:
  "hasSkill (s\<lparr>ownedSkills := snd (subscript (ownedSkills s) k)\<rparr>) k' = hasSkill s k'"
  by (simp add: hasSkill_def subscript_def split: option.splits)

lemma subscript_fst: "fst (subscript (ownedSkills s) k) = hasSkill s k"
  by (simp add: hasSkill_def subscript_def split: option.splits)

lemma subscript_owned:
  "hasSkill s k \<Longrightarrow> snd (subscript (ownedSkills s) k) = ownedSkills s"
  by (simp add: hasSkill_def subscript_def split: option.splits)

lemma subscript_upd:
  "(snd (subscript m k))(k \<mapsto> True) = m(k \<mapsto> True)"
  by (simp add: subscript_def split: option.splits)

lemma buySkillLoop_absent:
  "\<forall>sk \<in> set skills. sId sk \<noteq> skillId \<Longrightarrow> buySkillLoop skills skillId s = (False, s)"
  by (induction skills) simp_all

lemma buySkillLoop_present:
  assumes "distinct (map sId skills)" and "sk \<in> set skills"
  shows "buySkillLoop skills (sId sk) s =
           (if sint (cost sk) \<le> sint (neuralData s)
            then (True, s\<lparr>neuralData := neuralData s - scast (cost sk),
                         ownedSkills := (ownedSkills s)(sId sk \<mapsto> True)\<rparr>)
            else (False, s))"
  using assms
proof (induction skills)
  case Nil
  then show ?case by simp
next
  case (Cons a rest)
  show ?case
  proof (cases "sId a = sId sk")
    case True
    from Cons.prems(1) True have fresh: "sId sk \<notin> sId ` set rest" by auto
    then have others: "\<forall>x \<in> set rest. sId x \<noteq> sId sk" by (auto simp: image_iff)
    from fresh Cons.prems(2) have "a = sk" by auto
    with others show ?thesis by (simp add: buySkillLoop_absent fun_upd_def)
  next
    case False
    with Cons.prems have "sk \<in> set rest" by auto
    with Cons False show ?thesis by simp
  qed
qed

lemma distinct_getSkills: "distinct (map sId getSkills)"
  by (simp add: getSkills_def)

lemma cost_getSkills: "\<forall>sk \<in> set getSkills. 0 \<le> sint (cost sk)"
  by (simp add: getSkills_def)

lemma buySkill_unfold:
  "buySkill s k =
     (if hasSkill s k then (False, s)
      else buySkillLoop getSkills k (s\<lparr>ownedSkills := snd (subscript (ownedSkills s) k)\<rparr>))"
  using subscript_fst [of s k] subscript_owned [of s k]
  by (auto simp: buySkill_def Let_def case_prod_beta)

text \<open>
  Claim C6. For every state and every skill id: \<open>buySkill\<close> returns false when the skill
  is already owned (the state is then unchanged), when no catalog skill has that id, or
  when \<open>neuralData\<close> is below the skill's cost; in these failures \<open>neuralData\<close> and what
  \<open>hasSkill\<close> answers for every id are unchanged. Otherwise it takes exactly the skill's
  cost from \<open>neuralData\<close> (the 64-bit subtraction cannot wrap here), marks the skill
  owned, changes nothing else and returns true;
  a second call with the same id then returns false and leaves the state, so
  \<open>neuralData\<close>, as it is.
\<close>

theorem buySkill_spec:
  "(hasSkill s skillId \<longrightarrow> buySkill s skillId = (False, s))
   \<and> (\<not> hasSkill s skillId \<and> (\<forall>sk \<in> set getSkills. sId sk \<noteq> skillId) \<longrightarrow>
        \<not> fst (buySkill s skillId)
        \<and> neuralData (snd (buySkill s skillId)) = neuralData s
        \<and> (\<forall>k. hasSkill (snd (buySkill s skillId)) k = hasSkill s k))
   \<and> (\<forall>sk \<in> set getSkills. sId sk = skillId \<and> \<not> hasSkill s skillId \<longrightarrow>
        (sint (neuralData s) < sint (cost sk) \<longrightarrow>
           \<not> fst (buySkill s skillId)
           \<and> neuralData (snd (buySkill s skillId)) = neuralData s
           \<and> (\<forall>k. hasSkill (snd (buySkill s skillId)) k = hasSkill s k))
      \<and> (sint (cost sk) \<le> sint (neuralData s) \<longrightarrow>
           buySkill s skillId =
             (True, s\<lparr>neuralData := neuralData s - scast (cost sk),
                      ownedSkills := (ownedSkills s)(skillId \<mapsto> True)\<rparr>)
           \<and> sint (neuralData (snd (buySkill s skillId)))
               = sint (neuralData s) - sint (cost sk)
           \<and> hasSkill (snd (buySkill s skillId)) skillId
           \<and> buySkill (snd (buySkill s skillId)) skillId
               = (False, snd (buySkill s skillId))))"
proof -
  let ?s1 = "s\<lparr>ownedSkills := snd (subscript (ownedSkills s) skillId)\<rparr>"
  have owned: "buySkill s skillId = (False, s)" if "hasSkill s skillId"
    using that by (simp add: buySkill_unfold)
  have unknown: "buySkill s skillId = (False, ?s1)"
    if "\<not> hasSkill s skillId" and "\<forall>sk \<in> set getSkills. sId sk \<noteq> skillId"
    using that by (simp add: buySkill_unfold buySkillLoop_absent)
  have known: "buySkill s skillId =
           (if sint (cost sk) \<le> sint (neuralData s)
            then (True, s\<lparr>neuralData := neuralData s - scast (cost sk),
                         ownedSkills := (ownedSkills s)(skillId \<mapsto> True)\<rparr>)
            else (False, ?s1))"
    if "\<not> hasSkill s skillId" and "sk \<in> set getSkills" and "sId sk = skillId" for sk
    using that buySkillLoop_present [OF distinct_getSkills that(2), of ?s1]
    by (simp add: buySkill_unfold subscript_upd)
  have again: "buySkill s' skillId = (False, s')"
    if "s' = s\<lparr>neuralData := n, ownedSkills := (ownedSkills s)(skillId \<mapsto> True)\<rparr>" for s' n
    using that by (simp add: buySkill_unfold hasSkill_def)
  have exact: "sint (neuralData s - scast (cost sk)) = sint (neuralData s) - sint (cost sk)"
    if "sk \<in> set getSkills" and "sint (cost sk) \<le> sint (neuralData s)" for sk
  proof -
    from that(1) cost_getSkills have c0: "0 \<le> sint (cost sk)" by blast
    have "sint (neuralData s) < 2 ^ 63" "- (2 ^ 63) \<le> sint (neuralData s)"
      using sint_lt [of "neuralData s"] sint_ge [of "neuralData s"] by simp_all
    with c0 that(2)
    have "- (2 ^ 63) \<le> sint (neuralData s) - sint (scast (cost sk) :: 64 word)"
      "sint (neuralData s) - sint (scast (cost sk) :: 64 word) < 2 ^ 63"
      unfolding sint_scast_64 by linarith+
    then have "sint (neuralData s - scast (cost sk))
        = sint (neuralData s) - sint (scast (cost sk) :: 64 word)"
      by (rule sint_sub_64)
    then show ?thesis by (simp only: sint_scast_64)
  qed
  show ?thesis
    using owned unknown known again exact hasSkill_subscript [of s skillId]
    by (auto simp: hasSkill_def)
qed

text \<open>
  The theorem on four purchases: \<open>cheaper\<close> when already owned; the unknown id \<open>warp\<close>;
  \<open>auto_click\<close> (cost 5) with 4 Neural Data; \<open>cheaper\<close> (cost 10) with 12 Neural Data, which
  leaves 2, and the same purchase repeated.
\<close>

theorem buySkill_spec_witness:
  "buySkill (GameEngine_init 0 0 (Finite 0)\<lparr>ownedSkills := [''cheaper'' \<mapsto> True]\<rparr>) ''cheaper''
     = (False, GameEngine_init 0 0 (Finite 0)\<lparr>ownedSkills := [''cheaper'' \<mapsto> True]\<rparr>)
   \<and> \<not> fst (buySkill (GameEngine_init 0 0 (Finite 0)\<lparr>neuralData := 12\<rparr>) ''warp'')
   \<and> neuralData (snd (buySkill (GameEngine_init 0 0 (Finite 0)\<lparr>neuralData := 12\<rparr>) ''warp'')) = 12
   \<and> \<not> hasSkill (snd (buySkill (GameEngine_init 0 0 (Finite 0)\<lparr>neuralData := 12\<rparr>) ''warp'')) ''warp''
   \<and> \<not> fst (buySkill (GameEngine_init 0 0 (Finite 0)\<lparr>neuralData := 4\<rparr>) ''auto_click'')
   \<and> neuralData (snd (buySkill (GameEngine_init 0 0 (Finite 0)\<lparr>neuralData := 4\<rparr>) ''auto_click'')) = 4
   \<and> \<not> hasSkill (snd (buySkill (GameEngine_init 0 0 (Finite 0)\<lparr>neuralData := 4\<rparr>) ''auto_click''))
         ''auto_click''
   \<and> buySkill (GameEngine_init 0 0 (Finite 0)\<lparr>neuralData := 12\<rparr>) ''cheaper''
     = (True, GameEngine_init 0 0 (Finite 0)\<lparr>neuralData := 2, ownedSkills := [''cheaper'' \<mapsto> True]\<rparr>)
   \<and> buySkill (GameEngine_init 0 0 (Finite 0)\<lparr>neuralData := 2, ownedSkills := [''cheaper'' \<mapsto> True]\<rparr>)
        ''cheaper''
     = (False, GameEngine_init 0 0 (Finite 0)\<lparr>neuralData := 2, ownedSkills := [''cheaper'' \<mapsto> True]\<rparr>)"
proof -
  let ?owned = "GameEngine_init 0 0 (Finite 0)\<lparr>ownedSkills := [''cheaper'' \<mapsto> True]\<rparr>"
  let ?rich = "GameEngine_init 0 0 (Finite 0)\<lparr>neuralData := 12\<rparr>"
  let ?poor = "GameEngine_init 0 0 (Finite 0)\<lparr>neuralData := 4\<rparr>"
  let ?auto = "\<lparr>sId = ''auto_click'', sName = ''Auto-Clicker'', cost = 5,
       description = ''Automatic clicks 1x/sec''\<rparr>"
  let ?cheap = "\<lparr>sId = ''cheaper'', sName = ''Optimization'', cost = 10,
       description = ''Buildings are 10% cheaper''\<rparr>"
  have mem: "?auto \<in> set getSkills" "?cheap \<in> set getSkills"
    by (simp_all add: getSkills_def)
  have none: "\<not> hasSkill ?rich k" "\<not> hasSkill ?poor k" for k
    by (simp_all add: hasSkill_def GameEngine_init_def)
  have has: "hasSkill ?owned ''cheaper''"
    by (simp add: hasSkill_def)
  have unknown: "\<forall>sk \<in> set getSkills. sId sk \<noteq> ''warp''"
    by (simp add: getSkills_def)
  from buySkill_spec [of ?owned "''cheaper''"] has
  have a: "buySkill ?owned ''cheaper'' = (False, ?owned)" by blast
  from buySkill_spec [of ?rich "''warp''"] none(1) [of "''warp''"] unknown
  have b: "\<not> fst (buySkill ?rich ''warp'')
      \<and> neuralData (snd (buySkill ?rich ''warp'')) = neuralData ?rich
      \<and> (\<forall>k. hasSkill (snd (buySkill ?rich ''warp'')) k = hasSkill ?rich k)"
    by blast
  from buySkill_spec [of ?poor "''auto_click''"]
  have "\<forall>sk \<in> set getSkills. sId sk = ''auto_click'' \<and> \<not> hasSkill ?poor ''auto_click'' \<longrightarrow>
        (sint (neuralData ?poor) < sint (cost sk) \<longrightarrow>
           \<not> fst (buySkill ?poor ''auto_click'')
           \<and> neuralData (snd (buySkill ?poor ''auto_click'')) = neuralData ?poor
           \<and> (\<forall>k. hasSkill (snd (buySkill ?poor ''auto_click'')) k = hasSkill ?poor k))"
    by blast
  from bspec [OF this mem(1)]
  have low: "sId ?auto = ''auto_click'' \<and> \<not> hasSkill ?poor ''auto_click'' \<longrightarrow>
        (sint (neuralData ?poor) < sint (cost ?auto) \<longrightarrow>
           \<not> fst (buySkill ?poor ''auto_click'')
           \<and> neuralData (snd (buySkill ?poor ''auto_click'')) = neuralData ?poor
           \<and> (\<forall>k. hasSkill (snd (buySkill ?poor ''auto_click'')) k = hasSkill ?poor k))" .
  have short: "sId ?auto = ''auto_click''" "sint (neuralData ?poor) < sint (cost ?auto)"
    by simp_all
  from low short none(2) [of "''auto_click''"]
  have c: "\<not> fst (buySkill ?poor ''auto_click'')
      \<and> neuralData (snd (buySkill ?poor ''auto_click'')) = neuralData ?poor
      \<and> (\<forall>k. hasSkill (snd (buySkill ?poor ''auto_click'')) k = hasSkill ?poor k)"
    by blast
  from buySkill_spec [of ?rich "''cheaper''"]
  have "\<forall>sk \<in> set getSkills. sId sk = ''cheaper'' \<and> \<not> hasSkill ?rich ''cheaper'' \<longrightarrow>
        (sint (cost sk) \<le> sint (neuralData ?rich) \<longrightarrow>
           buySkill ?rich ''cheaper'' =
             (True, ?rich\<lparr>neuralData := neuralData ?rich - scast (cost sk),
                      ownedSkills := (ownedSkills ?rich)(''cheaper'' \<mapsto> True)\<rparr>)
           \<and> buySkill (snd (buySkill ?rich ''cheaper'')) ''cheaper''
               = (False, snd (buySkill ?rich ''cheaper'')))"
    by blast
  from bspec [OF this mem(2)]
  have step: "sId ?cheap = ''cheaper'' \<and> \<not> hasSkill ?rich ''cheaper'' \<longrightarrow>
        (sint (cost ?cheap) \<le> sint (neuralData ?rich) \<longrightarrow>
           buySkill ?rich ''cheaper'' =
             (True, ?rich\<lparr>neuralData := neuralData ?rich - scast (cost ?cheap),
                      ownedSkills := (ownedSkills ?rich)(''cheaper'' \<mapsto> True)\<rparr>)
           \<and> buySkill (snd (buySkill ?rich ''cheaper'')) ''cheaper''
               = (False, snd (buySkill ?rich ''cheaper'')))" .
  have pre: "sId ?cheap = ''cheaper''" "sint (cost ?cheap) \<le> sint (neuralData ?rich)"
    by simp_all
  from step pre none(1) [of "''cheaper''"]
  have d1: "buySkill ?rich ''cheaper'' =
             (True, ?rich\<lparr>neuralData := neuralData ?rich - scast (cost ?cheap),
                      ownedSkills := (ownedSkills ?rich)(''cheaper'' \<mapsto> True)\<rparr>)"
    and d2: "buySkill (snd (buySkill ?rich ''cheaper'')) ''cheaper''
               = (False, snd (buySkill ?rich ''cheaper''))"
    by blast+
  have e: "?rich\<lparr>neuralData := neuralData ?rich - scast (cost ?cheap),
                      ownedSkills := (ownedSkills ?rich)(''cheaper'' \<mapsto> True)\<rparr>
      = GameEngine_init 0 0 (Finite 0)\<lparr>neuralData := 2, ownedSkills := [''cheaper'' \<mapsto> True]\<rparr>"
    by (simp add: GameEngine_init_def)
  from d1 have f: "buySkill ?rich ''cheaper''
     = (True, GameEngine_init 0 0 (Finite 0)\<lparr>neuralData := 2, ownedSkills := [''cheaper'' \<mapsto> True]\<rparr>)"
    unfolding e .
  from d2 have g:
    "buySkill (GameEngine_init 0 0 (Finite 0)\<lparr>neuralData := 2, ownedSkills := [''cheaper'' \<mapsto> True]\<rparr>)
        ''cheaper''
     = (False, GameEngine_init 0 0 (Finite 0)\<lparr>neuralData := 2, ownedSkills := [''cheaper'' \<mapsto> True]\<rparr>)"
    unfolding f snd_conv .
  from a b c f g none show ?thesis by simp
qed


section \<open>The cost curve\<close>

lemma mul_15_G: "dmul (Finite 15) PRICE_GROWTH_RATE = Finite (69 / 2 ^ 2)"
  unfolding PRICE_GROWTH_RATE_value
  using rnd_eval [of "4" "15 * (2589569785738035 / 2 ^ 51)" "4855443348258816"]
  by (simp add: rne_def Let_def)

lemma mul_100_G: "dmul (Finite 100) PRICE_GROWTH_RATE = Finite (8092405580431359 / 2 ^ 46)"
  unfolding PRICE_GROWTH_RATE_value
  using rnd_eval [of "6" "100 * (2589569785738035 / 2 ^ 51)" "8092405580431359"]
  by (simp add: rne_def Let_def)

lemma mul_12000_G: "dmul (Finite 12000) PRICE_GROWTH_RATE = Finite (7586630231654399 / 2 ^ 39)"
  unfolding PRICE_GROWTH_RATE_value
  using rnd_eval [of "13" "12000 * (2589569785738035 / 2 ^ 51)" "7586630231654399"]
  by (simp add: rne_def Let_def)

lemma mul_12000_G_D: "dmul (Finite (7586630231654399 / 2 ^ 39)) DISCOUNT_RATE = Finite (6827967208488959 / 2 ^ 39)"
  unfolding DISCOUNT_RATE_value
  using rnd_eval [of "13" "7586630231654399 / 2 ^ 39 * (8106479329266893 / 2 ^ 53)" "6827967208488959"]
  by (simp add: rne_def Let_def)

lemma mul_15_D: "dmul (Finite 15) DISCOUNT_RATE = Finite (27 / 2 ^ 1)"
  unfolding DISCOUNT_RATE_value
  using rnd_eval [of "3" "15 * (8106479329266893 / 2 ^ 53)" "7599824371187712"]
  by (simp add: rne_def Let_def)

lemma mul_1725_D: "dmul (Finite (69 / 2 ^ 2)) DISCOUNT_RATE = Finite (8739798026865869 / 2 ^ 49)"
  unfolding DISCOUNT_RATE_value
  using rnd_eval [of "3" "69 / 2 ^ 2 * (8106479329266893 / 2 ^ 53)" "8739798026865869"]
  by (simp add: rne_def Let_def)


lemma pow_rn_growth_1: "pow_rn PRICE_GROWTH_RATE 1 = PRICE_GROWTH_RATE"
  unfolding PRICE_GROWTH_RATE_value
  using rnd_exact [OF is_double_dyadic [of 2589569785738035 51]]
  by simp


lemma dmul_one: "is_double a \<Longrightarrow> dmul (Finite a) (Finite 1) = Finite a"
  using dmul_exact [of a 1] by simp

lemma getBuildingCost_valid:
  assumes "0 \<le> sint buildingId" and "sint buildingId < int (length getBuildings)"
    and "length (buildingCounts s) = length getBuildings"
  shows "getBuildingCost pw s buildingId =
           Some (dfloor (dmul
             (dmul (baseCost (getBuildings ! nat (sint buildingId)))
                (pw PRICE_GROWTH_RATE (sint (buildingCounts s ! nat (sint buildingId)))))
             (if hasSkill s ''cheaper'' then DISCOUNT_RATE else Finite 1)))"
proof -
  from assms(1,2) have "nat (sint buildingId) < length getBuildings" by simp
  with assms(1,3) show ?thesis
    by (simp add: getBuildingCost_def Let_def)
qed

text \<open>
  Claim C3, as amended. For a valid building id (an index of the catalog,
  \<open>buildingCounts\<close> having one entry per catalog building), \<open>getBuildingCost\<close> returns the
  floor of the binary64 product \<open>(baseCost * pow(1.15, buildingCounts[id])) * d\<close>, taken
  left to right with the binary64 constants, where \<open>pow\<close> is the library's power
  function, \<open>d = 0.9\<close> when the skill \<open>cheaper\<close> is owned and \<open>d = 1\<close> otherwise; this is
  not always the floor of the real product. Building 0 has base cost 15; with one unit
  owned and no skill the cost is 17 (for a \<open>pow\<close> that returns its base at exponent 1).
\<close>

theorem getBuildingCost_spec:
  assumes "0 \<le> sint buildingId" and "sint buildingId < int (length getBuildings)"
    and "length (buildingCounts s) = length getBuildings"
  shows "getBuildingCost pw s buildingId =
           Some (dfloor (dmul
             (dmul (baseCost (getBuildings ! nat (sint buildingId)))
                (pw (rnd 1.15) (sint (buildingCounts s ! nat (sint buildingId)))))
             (if hasSkill s ''cheaper'' then rnd 0.9 else Finite 1)))
       \<and> baseCost (getBuildings ! 0) = Finite 15
       \<and> (buildingId = 0 \<and> buildingCounts s ! 0 = 1 \<and> (\<forall>skillId. \<not> hasSkill s skillId)
            \<and> pw (rnd 1.15) 1 = rnd 1.15
            \<longrightarrow> getBuildingCost pw s buildingId = Some (Finite 17))"
proof -
  have formula: "getBuildingCost pw s buildingId =
           Some (dfloor (dmul
             (dmul (baseCost (getBuildings ! nat (sint buildingId)))
                (pw (rnd 1.15) (sint (buildingCounts s ! nat (sint buildingId)))))
             (if hasSkill s ''cheaper'' then rnd 0.9 else Finite 1)))"
    using getBuildingCost_valid [OF assms, of pw]
    by (simp only: PRICE_GROWTH_RATE_def DISCOUNT_RATE_def)
  have first: "baseCost (getBuildings ! 0) = Finite 15"
    by (simp add: getBuildings_def)
  have "getBuildingCost pw s buildingId = Some (Finite 17)"
    if "buildingId = 0" and "buildingCounts s ! 0 = 1" and "\<forall>skillId. \<not> hasSkill s skillId"
      and "pw (rnd 1.15) 1 = rnd 1.15"
  proof -
    from that(4) have pw1: "pw PRICE_GROWTH_RATE 1 = PRICE_GROWTH_RATE"
      by (simp only: PRICE_GROWTH_RATE_def)
    from that(1,2,3) getBuildingCost_valid [OF assms, of pw]
    have "getBuildingCost pw s buildingId
        = Some (dfloor (dmul (dmul (Finite 15) (pw PRICE_GROWTH_RATE 1)) (Finite 1)))"
      by (simp add: first)
    also have "dmul (Finite 15) (pw PRICE_GROWTH_RATE 1) = Finite (69 / 2 ^ 2)"
      unfolding pw1 by (rule mul_15_G)
    also have "dmul (Finite (69 / 2 ^ 2)) (Finite 1) = Finite (69 / 2 ^ 2)"
      using dmul_one [OF is_double_dyadic [of 69 2]] by simp
    also have "dfloor (Finite (69 / 2 ^ 2)) = Finite 17" by simp
    finally show ?thesis .
  qed
  with formula first show ?thesis by blast
qed

text \<open>
  The theorem with the correctly rounded power: building 0 with one unit and no skill
  (cost 17), and building 3 with one unit and \<open>cheaper\<close> owned (the products round to
  13799.999999999998 and 12419.999999999998, cost 12419).
\<close>

theorem getBuildingCost_spec_witness:
  "getBuildingCost pow_rn
     (GameEngine_init 0 0 (Finite 0)\<lparr>buildingCounts := [1, 0, 0, 0, 0, 0, 0]\<rparr>) 0
     = Some (Finite 17)
   \<and> getBuildingCost pow_rn
     (GameEngine_init 0 0 (Finite 0)\<lparr>buildingCounts := [0, 0, 0, 1, 0, 0, 0],
        ownedSkills := [''cheaper'' \<mapsto> True]\<rparr>) 3 = Some (Finite 12419)"
proof -
  let ?s = "GameEngine_init 0 0 (Finite 0)\<lparr>buildingCounts := [1, 0, 0, 0, 0, 0, 0]\<rparr>"
  let ?t = "GameEngine_init 0 0 (Finite 0)\<lparr>buildingCounts := [0, 0, 0, 1, 0, 0, 0],
        ownedSkills := [''cheaper'' \<mapsto> True]\<rparr>"
  have len: "length (buildingCounts ?s) = length getBuildings"
       "length (buildingCounts ?t) = length getBuildings"
    by (simp_all add: getBuildings_def)
  have r: "0 \<le> sint (0 :: 32 word)" "sint (0 :: 32 word) < int (length getBuildings)"
       "0 \<le> sint (3 :: 32 word)" "sint (3 :: 32 word) < int (length getBuildings)"
    by (simp_all add: getBuildings_def)
  have none: "\<forall>skillId. \<not> hasSkill ?s skillId"
    by (simp add: hasSkill_def GameEngine_init_def)
  have one: "buildingCounts ?s ! 0 = 1" by simp
  have pw1: "pow_rn (rnd 1.15) 1 = rnd 1.15"
    using pow_rn_growth_1 by (simp only: PRICE_GROWTH_RATE_def)
  from getBuildingCost_spec [OF r(1) r(2) len(1), of pow_rn] one none pw1
  have a: "getBuildingCost pow_rn ?s 0 = Some (Finite 17)" by blast
  from getBuildingCost_spec [OF r(3) r(4) len(2), of pow_rn]
  have "getBuildingCost pow_rn ?t 3 =
           Some (dfloor (dmul
             (dmul (baseCost (getBuildings ! nat (sint (3 :: 32 word))))
                (pow_rn (rnd 1.15) (sint (buildingCounts ?t ! nat (sint (3 :: 32 word))))))
             (if hasSkill ?t ''cheaper'' then rnd 0.9 else Finite 1)))"
    by blast
  also have "baseCost (getBuildings ! nat (sint (3 :: 32 word))) = Finite 12000"
    by (simp add: getBuildings_def numeral_eq_Suc)
  also have "sint (buildingCounts ?t ! nat (sint (3 :: 32 word))) = 1"
    by (simp add: numeral_eq_Suc)
  also have "(if hasSkill ?t ''cheaper'' then rnd 0.9 else Finite 1) = DISCOUNT_RATE"
    by (simp add: hasSkill_def DISCOUNT_RATE_def)
  also have "pow_rn (rnd 1.15) 1 = PRICE_GROWTH_RATE"
    unfolding pw1 by (simp only: PRICE_GROWTH_RATE_def)
  also have "dmul (Finite 12000) PRICE_GROWTH_RATE = Finite (7586630231654399 / 2 ^ 39)"
    by (rule mul_12000_G)
  also have "dmul (Finite (7586630231654399 / 2 ^ 39)) DISCOUNT_RATE
      = Finite (6827967208488959 / 2 ^ 39)"
    by (rule mul_12000_G_D)
  also have "dfloor (Finite (6827967208488959 / 2 ^ 39)) = Finite 12419" by simp
  finally have b: "getBuildingCost pow_rn ?t 3 = Some (Finite 12419)" .
  from a b show ?thesis by blast
qed

text \<open>
  The claim as stated fails: with one Bot Network (base cost 100) and no skill the
  binary64 product of 100 and 1.15 is \<open>8092405580431359 / 2 ^ 46\<close>, just below 115, and the
  cost is 114, whereas the floor of the real \<open>100 * 1.15 ^ 1 * 1\<close> is 115.
\<close>

theorem getBuildingCost_counterexample:
  "getBuildingCost pow_rn
     (GameEngine_init 0 0 (Finite 0)\<lparr>buildingCounts := [0, 1, 0, 0, 0, 0, 0]\<rparr>) 1
     = Some (Finite 114)
   \<and> baseCost (getBuildings ! 1) = Finite 100
   \<and> \<lfloor>100 * 1.15 ^ 1 * 1 :: real\<rfloor> = 115"
proof -
  let ?s = "GameEngine_init 0 0 (Finite 0)\<lparr>buildingCounts := [0, 1, 0, 0, 0, 0, 0]\<rparr>"
  have len: "length (buildingCounts ?s) = length getBuildings"
    by (simp add: getBuildings_def)
  have r: "0 \<le> sint (1 :: 32 word)" "sint (1 :: 32 word) < int (length getBuildings)"
    by (simp_all add: getBuildings_def)
  have base: "baseCost (getBuildings ! 1) = Finite 100"
    by (simp add: getBuildings_def)
  have "getBuildingCost pow_rn ?s 1
      = Some (dfloor (dmul (dmul (Finite 100) (pow_rn PRICE_GROWTH_RATE 1)) (Finite 1)))"
    using getBuildingCost_valid [OF r len, of pow_rn] base
    by (simp add: hasSkill_def GameEngine_init_def)
  also have "dmul (Finite 100) (pow_rn PRICE_GROWTH_RATE 1)
      = Finite (8092405580431359 / 2 ^ 46)"
    unfolding pow_rn_growth_1 by (rule mul_100_G)
  also have "dmul (Finite (8092405580431359 / 2 ^ 46)) (Finite 1)
      = Finite (8092405580431359 / 2 ^ 46)"
    using dmul_one [OF is_double_dyadic [of 8092405580431359 46]] by simp
  also have "dfloor (Finite (8092405580431359 / 2 ^ 46)) = Finite 114" by simp
  finally have "getBuildingCost pow_rn ?s 1 = Some (Finite 114)" .
  moreover have "\<lfloor>100 * 1.15 ^ 1 * 1 :: real\<rfloor> = 115" by simp
  ultimately show ?thesis using base by blast
qed


section \<open>Building purchase\<close>












section \<open>The growth of the cost\<close>





lemma dmul_PInf_pos: "0 < d \<Longrightarrow> dmul PInf (Finite d) = PInf"
  by simp

lemma dmul_pos_PInf: "0 < b \<Longrightarrow> dmul (Finite b) PInf = PInf"
  by simp














end
